theory Spec2Isabelle
  imports Complex_Main
begin

section \<open>Python string operations used by the notebook\<close>

text \<open>
  The notebook \<^verbatim>\<open>data_analysis.ipynb\<close> builds its extraction query with
  \<^verbatim>\<open>SOURCE_QUERY.replace('@age', '100').replace('@dataset_name', 'sample_dataset')\<close>.
  Python strings are modelled as \<^typ>\<open>string\<close>; every character of the notebook's
  template is ASCII, so code points and bytes coincide.
\<close>

text \<open>\<^verbatim>\<open>s.startswith(p)\<close>.\<close>

definition startswith :: "string \<Rightarrow> string \<Rightarrow> bool" where
  "startswith s p = (take (length p) s = p)"

text \<open>
  \<^verbatim>\<open>s.replace(old, new)\<close> for a non-empty \<open>old\<close>: the string is scanned from the
  left; at an occurrence of \<open>old\<close> the replacement is emitted and the scan goes on
  behind the occurrence (the replacement is not rescanned), otherwise one character is
  copied.
\<close>

function replace_scan :: "string \<Rightarrow> string \<Rightarrow> string \<Rightarrow> string" where
  "replace_scan old new [] = []"
| "replace_scan old new (c # cs) =
     (if old \<noteq> [] \<and> startswith (c # cs) old
      then new @ replace_scan old new (drop (length old) (c # cs))
      else c # replace_scan old new cs)"
  by pat_completeness auto
termination
  by (relation "measure (\<lambda>(old, new, s). length s)") (auto simp: neq_Nil_conv)

text \<open>
  \<^verbatim>\<open>s.replace(old, new)\<close>. For the empty \<open>old\<close> Python puts \<open>new\<close> before every
  character and at the end.
\<close>

definition replace :: "string \<Rightarrow> string \<Rightarrow> string \<Rightarrow> string" where
  "replace s old new =
     (if old = [] then new @ concat (map (\<lambda>c. c # new) s) else replace_scan old new s)"

text \<open>\<^verbatim>\<open>sub in s\<close>: \<open>sub\<close> occurs in \<open>s\<close> as a contiguous substring.\<close>

fun contains :: "string \<Rightarrow> string \<Rightarrow> bool" where
  "contains [] sub = (sub = [])"
| "contains (c # cs) sub = (startswith (c # cs) sub \<or> contains cs sub)"

text \<open>\<^verbatim>\<open>str(n)\<close> for a Python \<^verbatim>\<open>int\<close>: the decimal rendering, with a minus sign
  for a negative number.\<close>

definition digit_char :: "nat \<Rightarrow> char" where
  "digit_char d = ''0123456789'' ! d"

fun str_nat :: "nat \<Rightarrow> string" where
  "str_nat n = (if n < 10 then [digit_char n] else str_nat (n div 10) @ [digit_char (n mod 10)])"

declare str_nat.simps [simp del]

definition str :: "int \<Rightarrow> string" where
  "str i = (if i < 0 then CHR ''-'' # str_nat (nat (- i)) else str_nat (nat i))"

section \<open>The extraction query\<close>

text \<open>The template of notebook cell 13, character for character.\<close>

definition SOURCE_QUERY :: string where
  "SOURCE_QUERY = ''\<newline>    SELECT \<newline>        age,\<newline>        workclass,\<newline>        fnlwgt,\<newline>        education,\<newline>        education_num,\<newline>        marital_status,\<newline>        occupation,\<newline>        relationship,\<newline>        race,\<newline>        gender,\<newline>        capital_gain,\<newline>        capital_loss,\<newline>        hours_per_week,\<newline>        native_country,\<newline>        CASE WHEN income_bracket = ' <=50K' THEN 0 ELSE 1 END AS income_bracket\<newline>    FROM \<newline>        @dataset_name.census\<newline>    WHERE\<newline>        age <= @age\<newline>''"

text \<open>
  The templating expression of cell 15, with the two replacement texts as parameters:
  the cell calls it with \<^verbatim>\<open>'100'\<close> and \<^verbatim>\<open>'sample_dataset'\<close>.
\<close>

definition substitute_tokens :: "string \<Rightarrow> string \<Rightarrow> string" where
  "substitute_tokens age_text dataset_name =
     replace (replace SOURCE_QUERY ''@age'' age_text) ''@dataset_name'' dataset_name"

text \<open>
  The query-templating operation for an integer age threshold: the same expression, the
  threshold rendered by \<^verbatim>\<open>str\<close>.
\<close>

definition templated_query :: "int \<Rightarrow> string \<Rightarrow> string" where
  "templated_query age dataset_name = substitute_tokens (str age) dataset_name"

text \<open>The three pieces of the template around its two tokens.\<close>

definition query_head :: string where
  "query_head = ''\<newline>    SELECT \<newline>        age,\<newline>        workclass,\<newline>        fnlwgt,\<newline>        education,\<newline>        education_num,\<newline>        marital_status,\<newline>        occupation,\<newline>        relationship,\<newline>        race,\<newline>        gender,\<newline>        capital_gain,\<newline>        capital_loss,\<newline>        hours_per_week,\<newline>        native_country,\<newline>        CASE WHEN income_bracket = ' <=50K' THEN 0 ELSE 1 END AS income_bracket\<newline>    FROM \<newline>        ''"

definition query_mid :: string where
  "query_mid = ''.census\<newline>    WHERE\<newline>        age <= ''"

definition query_tail :: string where
  "query_tail = ''\<newline>''"

section \<open>The SQL of the template, read as a query\<close>

text \<open>
  The template is BigQuery SQL. Its select list has fourteen plain columns and one
  \<^verbatim>\<open>CASE WHEN income_bracket = ' <=50K' THEN 0 ELSE 1 END AS income_bracket\<close>; it reads
  the table \<^verbatim>\<open>@dataset_name.census\<close> and keeps the rows with \<^verbatim>\<open>age <= @age\<close>.

  A column value is an integer, a string or \<^verbatim>\<open>NULL\<close>; a row of the source table maps
  column names to values. The census table types \<^verbatim>\<open>income_bracket\<close> as a string column
  and \<^verbatim>\<open>age\<close> as an integer column.
\<close>

datatype sql_value = IntV int | StrV string | Null

type_synonym row = "string \<Rightarrow> sql_value"

text \<open>
  The two forms of select item that occur in the template: a column, and
  \<^verbatim>\<open>CASE WHEN c = 'lit' THEN t ELSE e END AS alias\<close>.
\<close>

datatype select_item = Column string | CaseEqAs string string int int string

definition sql_quote :: "string \<Rightarrow> string" where
  "sql_quote lit = CHR 0x27 # lit @ [CHR 0x27]"

text \<open>The text of a select item, as it stands in the template.\<close>

fun item_text :: "select_item \<Rightarrow> string" where
  "item_text (Column c) = c"
| "item_text (CaseEqAs c lit t e alias) =
     ''CASE WHEN '' @ c @ '' = '' @ sql_quote lit @ '' THEN '' @ str t @ '' ELSE '' @ str e
       @ '' END AS '' @ alias"

text \<open>The name of the output column a select item produces.\<close>

fun item_name :: "select_item \<Rightarrow> string" where
  "item_name (Column c) = c"
| "item_name (CaseEqAs c lit t e alias) = alias"

text \<open>
  The value of a select item on a row. In SQL the comparison \<^verbatim>\<open>c = 'lit'\<close> is true only
  for a string equal to the literal, character for character; on \<^verbatim>\<open>NULL\<close> it is unknown,
  and \<^verbatim>\<open>CASE\<close> takes the \<^verbatim>\<open>ELSE\<close> branch whenever the condition is not true.
\<close>

fun item_value :: "select_item \<Rightarrow> row \<Rightarrow> sql_value" where
  "item_value (Column c) r = r c"
| "item_value (CaseEqAs c lit t e alias) r = (if r c = StrV lit then IntV t else IntV e)"

text \<open>\<^verbatim>\<open>sep.join(xs)\<close>.\<close>

fun join :: "string \<Rightarrow> string list \<Rightarrow> string" where
  "join sep [] = []"
| "join sep [x] = x"
| "join sep (x # y # ys) = x @ sep @ join sep (y # ys)"

text \<open>The select list of \<open>SOURCE_QUERY\<close>, item by item.\<close>

definition select_list :: "select_item list" where
  "select_list =
     [Column ''age'', Column ''workclass'', Column ''fnlwgt'', Column ''education'',
      Column ''education_num'', Column ''marital_status'', Column ''occupation'',
      Column ''relationship'', Column ''race'', Column ''gender'', Column ''capital_gain'',
      Column ''capital_loss'', Column ''hours_per_week'', Column ''native_country'',
      CaseEqAs ''income_bracket'' '' <=50K'' 0 1 ''income_bracket'']"

text \<open>
  The layout of the template from its start to the table reference: the keyword, one item
  per line, and \<^verbatim>\<open>FROM\<close>.
\<close>

definition select_clause :: "select_item list \<Rightarrow> string" where
  "select_clause items =
     ''\<newline>    SELECT \<newline>        '' @ join '',\<newline>        '' (map item_text items) @ ''\<newline>    FROM \<newline>        ''"

definition output_names :: "string list" where
  "output_names = map item_name select_list"

text \<open>One result row: the values of the select items, in order.\<close>

definition select_row :: "row \<Rightarrow> sql_value list" where
  "select_row r = map (\<lambda>i. item_value i r) select_list"

text \<open>\<^verbatim>\<open>WHERE age <= @age\<close>: a row whose age is \<^verbatim>\<open>NULL\<close> is not kept.\<close>

definition where_clause :: "int \<Rightarrow> row \<Rightarrow> bool" where
  "where_clause a r = (case r ''age'' of IntV n \<Rightarrow> n \<le> a | StrV s \<Rightarrow> False | Null \<Rightarrow> False)"

text \<open>The result of the query with age threshold \<open>a\<close> on the rows of the census table.\<close>

definition run_query :: "int \<Rightarrow> row list \<Rightarrow> sql_value list list" where
  "run_query a table = map select_row (filter (where_clause a) table)"

text \<open>The value of a result row in the output column of a given name.\<close>

definition column_value :: "sql_value list \<Rightarrow> string \<Rightarrow> sql_value option" where
  "column_value vs name = map_of (zip output_names vs) name"

section \<open>The dataframe and the training file\<close>
























subsection \<open>A small census table\<close>


definition person :: "int \<Rightarrow> string \<Rightarrow> row" where
  "person a bracket =
     (\<lambda>c. if c = ''age'' then IntV a
          else if c = ''income_bracket'' then StrV bracket
          else if c \<in> set [''fnlwgt'', ''education_num'', ''capital_gain'', ''capital_loss'',
                             ''hours_per_week'']
          then IntV 0 else StrV '' ?'')"

definition example_table :: "row list" where
  "example_table = [person 54 '' <=50K'', person 120 '' >50K'', person 32 ''<=50K'']"


section \<open>The workspace setup\<close>

text \<open>
  Cell 3 of the notebook:
  \<^verbatim>\<open>
  WORKSPACE = 'workspace'
  DATA_DIR = os.path.join(WORKSPACE, 'data')
  if tf.io.gfile.exists(WORKSPACE):
      print("Removing previous workspace...")
      tf.io.gfile.rmtree(WORKSPACE)
  print("Creating new workspace...")
  tf.io.gfile.mkdir(WORKSPACE)
  print("Creating data directory...")
  tf.io.gfile.mkdir(DATA_DIR)
  \<close>
  The file system is a finite store of entries, keyed by their paths relative to the
  working directory; the working directory itself has the empty path. An entry is a
  regular file, a directory, or a symbolic link with the path of the store it points to.
  A directory is \<open>Full\<close> when the process may list it, search it and create and delete
  entries in it, and \<open>Restricted\<close> when it lacks one of these permissions. Where the store
  holds a path twice, the first entry counts.
\<close>

datatype access = Full | Restricted

datatype node = File | Directory access | Symlink string

type_synonym filesystem = "(string \<times> node) list"

definition entry :: "filesystem \<Rightarrow> string \<Rightarrow> node option" where
  "entry f p = map_of f p"

text \<open>
  A call returns, or raises one of TensorFlow's errors and leaves a file system behind,
  or lies outside what is modelled here: which of the permissions a restricted directory
  lacks, paths that are not plain relative paths, a deletion that would walk through a
  symbolic link, and chains of more than forty links.
\<close>

datatype fs_error = NotFoundError | FailedPreconditionError

datatype ('r, 's) outcome = Returns 'r | Raises fs_error 's | Unmodelled

record state =
  fs :: filesystem
  stdout :: "string list"

text \<open>\<^verbatim>\<open>os.path.join(a, b)\<close> of \<^verbatim>\<open>posixpath\<close>.\<close>

definition path_join :: "string \<Rightarrow> string \<Rightarrow> string" where
  "path_join a b =
     (if startswith b ''/'' then b
      else if a = [] \<or> last a = CHR ''/'' then a @ b
      else a @ ''/'' @ b)"

definition WORKSPACE :: string where
  "WORKSPACE = ''workspace''"

definition DATA_DIR :: string where
  "DATA_DIR = path_join WORKSPACE ''data''"

text \<open>
  The components of a path, and the paths of the directories above it, from the working
  directory down to its parent. A path is simple when no component is empty, \<open>.\<close> or
  \<open>..\<close>: a relative path without a trailing or doubled slash.
\<close>

fun components :: "string \<Rightarrow> string list" where
  "components [] = [[]]"
| "components (c # cs) =
     (if c = CHR ''/'' then [] # components cs
      else (c # hd (components cs)) # tl (components cs))"

fun proper_prefixes :: "'a list \<Rightarrow> 'a list list" where
  "proper_prefixes [] = []"
| "proper_prefixes (x # xs) = [] # map ((#) x) (proper_prefixes xs)"

definition ancestors :: "string \<Rightarrow> string list" where
  "ancestors p = map (join ''/'') (proper_prefixes (components p))"

definition simple_path :: "string \<Rightarrow> bool" where
  "simple_path p = list_all (\<lambda>c. c \<noteq> [] \<and> c \<noteq> ''.'' \<and> c \<noteq> ''..'') (components p)"

text \<open>The path \<open>q\<close> lies below the path \<open>p\<close>.\<close>

definition inside :: "string \<Rightarrow> string \<Rightarrow> bool" where
  "inside p q = startswith q (p @ ''/'')"

text \<open>
  What a path names once the symbolic links at its end are followed (\<^verbatim>\<open>stat\<close>): nothing,
  an entry of the store at some path, or more links than the system follows. The number
  is the count of links that may still be followed; Linux follows forty.
\<close>

datatype target = Absent | Found string node | TooManyLinks

fun follow :: "nat \<Rightarrow> filesystem \<Rightarrow> string \<Rightarrow> target" where
  "follow 0 f p =
     (case entry f p of
        None \<Rightarrow> Absent
      | Some (Symlink t) \<Rightarrow> TooManyLinks
      | Some File \<Rightarrow> Found p File
      | Some (Directory a) \<Rightarrow> Found p (Directory a))"
| "follow (Suc k) f p =
     (case entry f p of
        None \<Rightarrow> Absent
      | Some (Symlink t) \<Rightarrow> follow k f t
      | Some File \<Rightarrow> Found p File
      | Some (Directory a) \<Rightarrow> Found p (Directory a))"

definition stat :: "filesystem \<Rightarrow> string \<Rightarrow> target" where
  "stat f p = follow 40 f p"

text \<open>
  The walk down the directories above a path, as every system call makes it: it reaches
  the parent, or stops at a missing directory (\<^verbatim>\<open>ENOENT\<close>, also for a link that points
  nowhere) or at something that is not a directory (\<^verbatim>\<open>ENOTDIR\<close>). A restricted
  directory and a link to a directory on the way are not modelled.
\<close>

datatype walk = Reached | Missing | NotDirectory | NotModelled

fun walk_down :: "filesystem \<Rightarrow> string list \<Rightarrow> walk" where
  "walk_down f [] = Reached"
| "walk_down f (d # ds) =
     (case entry f d of
        None \<Rightarrow> Missing
      | Some File \<Rightarrow> NotDirectory
      | Some (Directory Full) \<Rightarrow> walk_down f ds
      | Some (Directory Restricted) \<Rightarrow> NotModelled
      | Some (Symlink t) \<Rightarrow>
          (case stat f d of
             Absent \<Rightarrow> Missing
           | Found r File \<Rightarrow> NotDirectory
           | Found r (Directory a) \<Rightarrow> NotModelled
           | Found r (Symlink u) \<Rightarrow> NotModelled
           | TooManyLinks \<Rightarrow> NotModelled))"

text \<open>
  \<^verbatim>\<open>tf.io.gfile.exists(p)\<close>: TensorFlow asks \<^verbatim>\<open>access(p, F_OK)\<close>, which follows symbolic
  links, and answers \<open>False\<close> on every failure. A link that points nowhere does not exist
  in this sense.
\<close>

definition gfile_exists :: "filesystem \<Rightarrow> string \<Rightarrow> (bool, filesystem) outcome" where
  "gfile_exists f p =
     (if \<not> simple_path p then Unmodelled
      else case walk_down f (ancestors p) of
             Reached \<Rightarrow>
               (case stat f p of
                  Absent \<Rightarrow> Returns False
                | Found r n \<Rightarrow> Returns True
                | TooManyLinks \<Rightarrow> Returns False)
           | Missing \<Rightarrow> Returns False
           | NotDirectory \<Rightarrow> Returns False
           | NotModelled \<Rightarrow> Unmodelled)"

text \<open>
  \<^verbatim>\<open>tf.io.gfile.mkdir(p)\<close>: the system call \<^verbatim>\<open>mkdir\<close>, which creates no parents and does
  not follow a link at \<open>p\<close>. When there is an entry of any kind at \<open>p\<close>, also a link that
  points nowhere, the call fails with \<^verbatim>\<open>EEXIST\<close> and TensorFlow's Python binding drops
  that error: nothing happens. A missing directory above \<open>p\<close> raises
  \<^verbatim>\<open>NotFoundError\<close>, a non-directory above \<open>p\<close> \<^verbatim>\<open>FailedPreconditionError\<close>.
\<close>

definition gfile_mkdir :: "filesystem \<Rightarrow> string \<Rightarrow> (filesystem, filesystem) outcome" where
  "gfile_mkdir f p =
     (if \<not> simple_path p then Unmodelled
      else case walk_down f (ancestors p) of
             Reached \<Rightarrow>
               (if entry f p \<noteq> None then Returns f else Returns ((p, Directory Full) # f))
           | Missing \<Rightarrow> Raises NotFoundError f
           | NotDirectory \<Rightarrow> Raises FailedPreconditionError f
           | NotModelled \<Rightarrow> Unmodelled)"

text \<open>
  \<^verbatim>\<open>tf.io.gfile.rmtree(p)\<close>: TensorFlow first asks whether \<open>p\<close> exists and raises
  \<^verbatim>\<open>NotFoundError\<close> when it does not. A path that is not a directory is unlinked (the
  link itself, when it is a link to a file). Below a directory every file is unlinked
  and every directory removed, and last the directory at \<open>p\<close>; when \<open>p\<close> is a link to a
  directory, the directory it points to is emptied, and the final \<^verbatim>\<open>rmdir\<close> of the link
  fails with \<^verbatim>\<open>ENOTDIR\<close>, raised as \<^verbatim>\<open>FailedPreconditionError\<close>. The deletion is
  modelled for a tree of regular files and full directories.
\<close>

definition plain_below :: "filesystem \<Rightarrow> string \<Rightarrow> bool" where
  "plain_below f p =
     list_all (\<lambda>(q, n). if inside p q then n = File \<or> n = Directory Full else True) f"

definition unlink :: "string \<Rightarrow> filesystem \<Rightarrow> filesystem" where
  "unlink p f = filter (\<lambda>(q, n). q \<noteq> p) f"

definition delete_below :: "string \<Rightarrow> filesystem \<Rightarrow> filesystem" where
  "delete_below p f = filter (\<lambda>(q, n). \<not> inside p q) f"

definition gfile_rmtree :: "filesystem \<Rightarrow> string \<Rightarrow> (filesystem, filesystem) outcome" where
  "gfile_rmtree f p =
     (case gfile_exists f p of
        Unmodelled \<Rightarrow> Unmodelled
      | Raises e g \<Rightarrow> Raises e g
      | Returns False \<Rightarrow> Raises NotFoundError f
      | Returns True \<Rightarrow>
          (case stat f p of
             Found r File \<Rightarrow> Returns (unlink p f)
           | Found r (Directory Full) \<Rightarrow>
               (if \<not> plain_below f r then Unmodelled
                else if r = p then Returns (unlink p (delete_below p f))
                else Raises FailedPreconditionError (delete_below r f))
           | Found r (Directory Restricted) \<Rightarrow> Unmodelled
           | Found r (Symlink u) \<Rightarrow> Unmodelled
           | Absent \<Rightarrow> Unmodelled
           | TooManyLinks \<Rightarrow> Unmodelled))"

definition print :: "string \<Rightarrow> state \<Rightarrow> state" where
  "print line st = st\<lparr>stdout := stdout st @ [line]\<rparr>"

text \<open>
  The cell, statement by statement. An exception ends the cell, with the lines printed
  and the file system reached so far.
\<close>

definition on_fs ::
  "(filesystem \<Rightarrow> (filesystem, filesystem) outcome) \<Rightarrow> state \<Rightarrow> (state, state) outcome" where
  "on_fs call st =
     (case call (fs st) of
        Returns f \<Rightarrow> Returns (st\<lparr>fs := f\<rparr>)
      | Raises e f \<Rightarrow> Raises e (st\<lparr>fs := f\<rparr>)
      | Unmodelled \<Rightarrow> Unmodelled)"

definition remove_previous :: "state \<Rightarrow> (state, state) outcome" where
  "remove_previous st =
     (case gfile_exists (fs st) WORKSPACE of
        Returns True \<Rightarrow>
          on_fs (\<lambda>f. gfile_rmtree f WORKSPACE) (print ''Removing previous workspace...'' st)
      | Returns False \<Rightarrow> Returns st
      | Raises e f \<Rightarrow> Raises e st
      | Unmodelled \<Rightarrow> Unmodelled)"

definition create_dir :: "string \<Rightarrow> string \<Rightarrow> state \<Rightarrow> (state, state) outcome" where
  "create_dir line p st = on_fs (\<lambda>f. gfile_mkdir f p) (print line st)"

definition workspace_setup :: "state \<Rightarrow> (state, state) outcome" where
  "workspace_setup st =
     (case remove_previous st of
        Returns st1 \<Rightarrow>
          (case create_dir ''Creating new workspace...'' WORKSPACE st1 of
             Returns st2 \<Rightarrow> create_dir ''Creating data directory...'' DATA_DIR st2
           | Raises e st2 \<Rightarrow> Raises e st2
           | Unmodelled \<Rightarrow> Unmodelled)
      | Raises e st1 \<Rightarrow> Raises e st1
      | Unmodelled \<Rightarrow> Unmodelled)"

text \<open>
  What the removal step and the two creations make of a store, on the starting states
  described next.
\<close>

definition removed :: "filesystem \<Rightarrow> filesystem" where
  "removed f =
     (case entry f WORKSPACE of
        None \<Rightarrow> f
      | Some File \<Rightarrow> unlink WORKSPACE f
      | Some (Directory a) \<Rightarrow> unlink WORKSPACE (delete_below WORKSPACE f)
      | Some (Symlink t) \<Rightarrow> f)"

definition created :: "filesystem \<Rightarrow> filesystem" where
  "created f =
     (if entry f DATA_DIR \<noteq> None then (WORKSPACE, Directory Full) # f
      else (DATA_DIR, Directory Full) # (WORKSPACE, Directory Full) # f)"

text \<open>
  The starting states on which the cell meets none of the cases above: the working
  directory is a full directory, the workspace path is free or holds a regular file or a
  full directory, and whatever lies below the workspace path is a regular file or a full
  directory.
\<close>

definition plain_start :: "filesystem \<Rightarrow> bool" where
  "plain_start f =
     (entry f [] = Some (Directory Full) \<and>
      (entry f WORKSPACE = None \<or> entry f WORKSPACE = Some File \<or>
       entry f WORKSPACE = Some (Directory Full)) \<and>
      plain_below f WORKSPACE)"

subsection \<open>Three starting states\<close>

text \<open>
  A working directory after an earlier run of the notebook, one before the first run,
  and one in which \<open>workspace\<close> is a symbolic link whose target does not exist.
\<close>

definition previous_run :: state where
  "previous_run =
     \<lparr>fs = [([], Directory Full), (''workspace'', Directory Full),
             (''workspace/data'', Directory Full), (''workspace/data/train.csv'', File),
             (''raw_schema'', Directory Full)],
      stdout = []\<rparr>"

definition first_run :: state where
  "first_run = \<lparr>fs = [([], Directory Full), (''raw_schema'', Directory Full)], stdout = []\<rparr>"

definition dangling_link :: state where
  "dangling_link =
     \<lparr>fs = [([], Directory Full), (''workspace'', Symlink ''gone'')], stdout = []\<rparr>"

section \<open>The schema and its alteration\<close>

text \<open>
  Cell 29 of the notebook alters the schema that \<^verbatim>\<open>tfdv.infer_schema\<close> returned:
  \<^verbatim>\<open>
  occupation = tfdv.get_feature(schema, 'occupation')
  occupation.distribution_constraints.min_domain_mass = 0.9
  native_country_domain = tfdv.get_domain(schema, 'native_country')
  native_country_domain.value.append('Egypt')
  schema.default_environment.append('TRAINING')
  schema.default_environment.append('EVALUATION')
  schema.default_environment.append('SERVING')
  tfdv.get_feature(schema, TARGET_FEATURE_NAME).not_in_environment.append('SERVING')
  \<close>
  The schema is a protocol buffer message. The records below hold the fields the cell
  reads or writes: of \<^verbatim>\<open>Schema\<close> the repeated fields \<^verbatim>\<open>feature\<close>, \<^verbatim>\<open>string_domain\<close> and
  \<^verbatim>\<open>default_environment\<close>; of \<^verbatim>\<open>Feature\<close> its \<^verbatim>\<open>name\<close>, its
  \<^verbatim>\<open>distribution_constraints\<close>, its \<^verbatim>\<open>not_in_environment\<close> and its \<^verbatim>\<open>domain_info\<close>
  (unset, the name of a domain of the schema, a string domain of its own, or a domain of
  another kind); of \<^verbatim>\<open>StringDomain\<close> its \<^verbatim>\<open>name\<close> and \<^verbatim>\<open>value\<close>, here \<open>domain_name\<close>
  and \<open>domain_value\<close>. The number \<^verbatim>\<open>0.9\<close> is kept as the number it denotes.
\<close>

datatype schema_error = ValueError | AttributeError

record StringDomain =
  domain_name :: string
  domain_value :: "string list"

datatype domain_info = Unset | DomainName string | EmbeddedStringDomain StringDomain | OtherDomain

record DistributionConstraints =
  min_domain_mass :: real

record Feature =
  name :: string
  distribution_constraints :: DistributionConstraints
  not_in_environment :: "string list"
  domain_info :: domain_info

record Schema =
  feature :: "Feature list"
  string_domain :: "StringDomain list"
  default_environment :: "string list"

text \<open>
  \<^verbatim>\<open>get_feature\<close> and \<^verbatim>\<open>get_domain\<close> return references into the schema, and the cell
  writes through them. A reference to a feature is its position in \<^verbatim>\<open>schema.feature\<close>; a
  reference to a domain is the position of a feature (its own domain) or a position in
  \<^verbatim>\<open>schema.string_domain\<close>.
\<close>

datatype domain_ref = FeatureDomain nat | SchemaDomain nat | NonStringDomain nat

text \<open>The position of the first element that satisfies \<open>P\<close>: the loops of both lookups.\<close>

fun index_of :: "('a \<Rightarrow> bool) \<Rightarrow> 'a list \<Rightarrow> nat option" where
  "index_of P [] = None"
| "index_of P (x # xs) = (if P x then Some 0 else map_option Suc (index_of P xs))"

text \<open>
  \<^verbatim>\<open>tfdv.get_feature(schema, name)\<close>: the first feature of that name; \<^verbatim>\<open>ValueError\<close>
  when there is none.
\<close>

definition get_feature :: "Schema \<Rightarrow> string \<Rightarrow> schema_error + nat" where
  "get_feature s n =
     (case index_of (\<lambda>f. name f = n) (feature s) of
        None \<Rightarrow> Inl ValueError
      | Some i \<Rightarrow> Inr i)"

text \<open>
  \<^verbatim>\<open>tfdv.get_domain(schema, name)\<close>: \<^verbatim>\<open>ValueError\<close> when the feature has no domain; the
  feature's own domain when it has one; otherwise the first domain of the schema with the
  name the feature gives, and \<^verbatim>\<open>ValueError\<close> when there is none.
\<close>

definition get_domain :: "Schema \<Rightarrow> string \<Rightarrow> schema_error + domain_ref" where
  "get_domain s n =
     (case get_feature s n of
        Inl e \<Rightarrow> Inl e
      | Inr i \<Rightarrow>
          (case domain_info (feature s ! i) of
             Unset \<Rightarrow> Inl ValueError
           | DomainName d \<Rightarrow>
               (case index_of (\<lambda>x. domain_name x = d) (string_domain s) of
                  None \<Rightarrow> Inl ValueError
                | Some k \<Rightarrow> Inr (SchemaDomain k))
           | EmbeddedStringDomain x \<Rightarrow> Inr (FeatureDomain i)
           | OtherDomain \<Rightarrow> Inr (NonStringDomain i)))"

text \<open>A write through a reference: the element at position \<open>i\<close> is changed in place.\<close>

definition modify :: "nat \<Rightarrow> ('a \<Rightarrow> 'a) \<Rightarrow> 'a list \<Rightarrow> 'a list" where
  "modify i g xs = xs[i := g (xs ! i)]"

text \<open>
  \<^verbatim>\<open>d.value\<close> and \<^verbatim>\<open>d.value.append(v)\<close> for a domain reference \<open>d\<close>. Only a string domain
  has the field \<^verbatim>\<open>value\<close>; on a domain of another kind Python raises
  \<^verbatim>\<open>AttributeError\<close>.
\<close>

definition value_of :: "Schema \<Rightarrow> domain_ref \<Rightarrow> schema_error + string list" where
  "value_of s r =
     (case r of
        SchemaDomain k \<Rightarrow> Inr (domain_value (string_domain s ! k))
      | FeatureDomain i \<Rightarrow>
          (case domain_info (feature s ! i) of
             EmbeddedStringDomain x \<Rightarrow> Inr (domain_value x)
           | _ \<Rightarrow> Inl AttributeError)
      | NonStringDomain i \<Rightarrow> Inl AttributeError)"

definition value_append :: "Schema \<Rightarrow> domain_ref \<Rightarrow> string \<Rightarrow> schema_error + Schema" where
  "value_append s r v =
     (case r of
        SchemaDomain k \<Rightarrow>
          Inr (s\<lparr>string_domain :=
                 modify k (\<lambda>d. d\<lparr>domain_value := domain_value d @ [v]\<rparr>) (string_domain s)\<rparr>)
      | FeatureDomain i \<Rightarrow>
          (case domain_info (feature s ! i) of
             EmbeddedStringDomain x \<Rightarrow>
               Inr (s\<lparr>feature :=
                      modify i (\<lambda>f. f\<lparr>domain_info :=
                        EmbeddedStringDomain (x\<lparr>domain_value := domain_value x @ [v]\<rparr>)\<rparr>) (feature s)\<rparr>)
           | _ \<Rightarrow> Inl AttributeError)
      | NonStringDomain i \<Rightarrow> Inl AttributeError)"

text \<open>The other three writes of the cell.\<close>

definition set_min_domain_mass :: "Schema \<Rightarrow> nat \<Rightarrow> real \<Rightarrow> Schema" where
  "set_min_domain_mass s i m =
     s\<lparr>feature :=
         modify i (\<lambda>f. f\<lparr>distribution_constraints :=
           (distribution_constraints f)\<lparr>min_domain_mass := m\<rparr>\<rparr>) (feature s)\<rparr>"

definition not_in_environment_append :: "Schema \<Rightarrow> nat \<Rightarrow> string \<Rightarrow> Schema" where
  "not_in_environment_append s i e =
     s\<lparr>feature :=
         modify i (\<lambda>f. f\<lparr>not_in_environment := not_in_environment f @ [e]\<rparr>) (feature s)\<rparr>"

definition default_environment_append :: "Schema \<Rightarrow> string \<Rightarrow> Schema" where
  "default_environment_append s e = s\<lparr>default_environment := default_environment s @ [e]\<rparr>"

definition TARGET_FEATURE_NAME :: string where
  "TARGET_FEATURE_NAME = ''income_bracket''"

text \<open>The three appends to \<^verbatim>\<open>schema.default_environment\<close>.\<close>

definition register_environments :: "Schema \<Rightarrow> Schema" where
  "register_environments s =
     default_environment_append
       (default_environment_append (default_environment_append s ''TRAINING'') ''EVALUATION'')
       ''SERVING''"

text \<open>
  The cell. An exception ends it; the schema object keeps the writes made before, so the
  error comes with the schema reached.
\<close>

definition alter_schema :: "Schema \<Rightarrow> (schema_error \<times> Schema) + Schema" where
  "alter_schema s =
     (case get_feature s ''occupation'' of
        Inl e \<Rightarrow> Inl (e, s)
      | Inr occupation \<Rightarrow>
          (let s1 = set_min_domain_mass s occupation 0.9
           in case get_domain s1 ''native_country'' of
                Inl e \<Rightarrow> Inl (e, s1)
              | Inr native_country_domain \<Rightarrow>
                  (case value_append s1 native_country_domain ''Egypt'' of
                     Inl e \<Rightarrow> Inl (e, s1)
                   | Inr s2 \<Rightarrow>
                       (let s3 = register_environments s2
                        in case get_feature s3 TARGET_FEATURE_NAME of
                             Inl e \<Rightarrow> Inl (e, s3)
                           | Inr target \<Rightarrow> Inr (not_in_environment_append s3 target ''SERVING'')))))"

subsection \<open>A schema as inference returns it\<close>

text \<open>
  Three of the features of the census data: two string features whose domains are
  domains of the schema, named after the features, and the integer label.
\<close>

definition inferred_example :: Schema where
  "inferred_example =
     \<lparr>feature =
        [\<lparr>name = ''occupation'', distribution_constraints = \<lparr>min_domain_mass = 1\<rparr>,
          not_in_environment = [], domain_info = DomainName ''occupation''\<rparr>,
         \<lparr>name = ''native_country'', distribution_constraints = \<lparr>min_domain_mass = 1\<rparr>,
          not_in_environment = [], domain_info = DomainName ''native_country''\<rparr>,
         \<lparr>name = ''income_bracket'', distribution_constraints = \<lparr>min_domain_mass = 1\<rparr>,
          not_in_environment = [], domain_info = Unset\<rparr>],
      string_domain =
        [\<lparr>domain_name = ''occupation'', domain_value = ['' Sales'', '' Tech-support'']\<rparr>,
         \<lparr>domain_name = ''native_country'', domain_value = ['' Mexico'', '' United-States'']\<rparr>],
      default_environment = []\<rparr>"

section \<open>Facts about the string operations\<close>

lemma startswith_append [simp]: "startswith (p @ s) p"
  by (simp add: startswith_def)

lemma startswith_hd: "startswith (c # cs) p \<Longrightarrow> p \<noteq> [] \<Longrightarrow> hd p = c"
  by (cases p) (auto simp: startswith_def)

lemma replace_scan_skip:
  "old \<noteq> [] \<Longrightarrow> hd old \<notin> set xs \<Longrightarrow>
     replace_scan old new (xs @ ys) = xs @ replace_scan old new ys"
proof (induction xs)
  case Nil
  show ?case by simp
next
  case (Cons x xs)
  have "\<not> startswith (x # xs @ ys) old"
    using Cons.prems startswith_hd [of x "xs @ ys" old] by auto
  with Cons show ?case by simp
qed

lemma replace_scan_clean:
  "old \<noteq> [] \<Longrightarrow> hd old \<notin> set xs \<Longrightarrow> replace_scan old new xs = xs"
  using replace_scan_skip [of old xs new "[]"] by simp

lemma replace_scan_hit:
  assumes "old \<noteq> []"
  shows "replace_scan old new (old @ ys) = new @ replace_scan old new ys"
proof -
  from assms obtain c cs where eq: "old @ ys = c # cs"
    by (cases old) auto
  have st: "startswith (c # cs) old"
    using startswith_append [of old ys] by (simp only: eq)
  have dr: "drop (length old) (c # cs) = ys"
    using eq by (metis append_eq_conv_conj)
  show ?thesis
    unfolding eq using assms st dr by simp
qed

lemma replace_scan_miss:
  "\<not> startswith (c # cs) old \<Longrightarrow> replace_scan old new (c # cs) = c # replace_scan old new cs"
  by simp

lemma startswith_contains: "startswith s sub \<Longrightarrow> contains s sub"
  by (cases s) (simp_all add: startswith_def)

lemma contains_append: "contains (ps @ sub @ ss) sub"
proof (induction ps)
  case Nil
  show ?case by (simp add: startswith_contains)
next
  case (Cons p ps)
  then show ?case by simp
qed

lemma digit_char_cases:
  "d < 10 \<Longrightarrow> digit_char d \<in> set ''0123456789''"
  unfolding digit_char_def by (rule nth_mem) simp

lemma str_nat_digits: "set (str_nat n) \<subseteq> set ''0123456789''"
proof (induction n rule: str_nat.induct)
  case (1 n)
  show ?case
  proof (cases "n < 10")
    case True
    then show ?thesis using digit_char_cases [of n] by (subst str_nat.simps) simp
  next
    case False
    have "n mod 10 < 10" by simp
    then have "digit_char (n mod 10) \<in> set ''0123456789''" by (rule digit_char_cases)
    with False 1 show ?thesis by (subst str_nat.simps) simp
  qed
qed

lemma str_no_at: "CHR ''@'' \<notin> set (str i)"
  using str_nat_digits [of "nat i"] str_nat_digits [of "nat (- i)"]
  by (auto simp: str_def)

section \<open>The templating step in closed form\<close>

lemma template_split:
  "SOURCE_QUERY = query_head @ ''@dataset_name'' @ query_mid @ ''@age'' @ query_tail"
  by (simp add: SOURCE_QUERY_def query_head_def query_mid_def query_tail_def)

lemma no_at_head: "CHR ''@'' \<notin> set query_head"
  by (simp add: query_head_def)

lemma no_at_mid: "CHR ''@'' \<notin> set query_mid"
  by (simp add: query_mid_def)

lemma no_at_tail: "CHR ''@'' \<notin> set query_tail"
  by (simp add: query_tail_def)

text \<open>
  The first replacement: the scan copies the head (no \<open>@\<close> in it), steps over the
  \<open>@\<close> of \<open>@dataset_name\<close> (which is not the start of \<open>@age\<close>), copies up to the
  token and replaces it.
\<close>

lemma replace_age:
  "replace SOURCE_QUERY ''@age'' s =
     query_head @ ''@dataset_name'' @ query_mid @ s @ query_tail"
proof -
  define old where "old = ''@age''"
  define rest where "rest = ''dataset_name'' @ query_mid"
  have ne: "old \<noteq> []" and h: "hd old = CHR ''@''"
    by (simp_all add: old_def)
  have a: "hd old \<notin> set query_head"
    by (simp only: h no_at_head not_False_eq_True)
  have b: "hd old \<notin> set rest"
    using no_at_mid by (simp add: h rest_def)
  have c: "hd old \<notin> set query_tail"
    by (simp only: h no_at_tail not_False_eq_True)
  have m: "\<not> startswith (CHR ''@'' # rest @ old @ query_tail) old"
    by (simp add: startswith_def old_def rest_def)
  have "replace_scan old s (query_head @ CHR ''@'' # rest @ old @ query_tail)
      = query_head @ replace_scan old s (CHR ''@'' # rest @ old @ query_tail)"
    by (rule replace_scan_skip [OF ne a])
  also have "replace_scan old s (CHR ''@'' # rest @ old @ query_tail)
      = CHR ''@'' # replace_scan old s (rest @ old @ query_tail)"
    by (rule replace_scan_miss [OF m])
  also have "replace_scan old s (rest @ old @ query_tail)
      = rest @ replace_scan old s (old @ query_tail)"
    by (rule replace_scan_skip [OF ne b])
  also have "replace_scan old s (old @ query_tail) = s @ replace_scan old s query_tail"
    by (rule replace_scan_hit [OF ne])
  also have "replace_scan old s query_tail = query_tail"
    by (rule replace_scan_clean [OF ne c])
  finally have "replace_scan old s (query_head @ CHR ''@'' # rest @ old @ query_tail)
      = query_head @ CHR ''@'' # rest @ s @ query_tail" .
  moreover have "SOURCE_QUERY = query_head @ CHR ''@'' # rest @ old @ query_tail"
    by (simp add: template_split rest_def old_def)
  moreover have "replace SOURCE_QUERY ''@age'' s = replace_scan old s SOURCE_QUERY"
    by (simp add: replace_def old_def)
  ultimately show ?thesis
    by (simp add: rest_def)
qed

text \<open>The second replacement, on a text whose inserted age has no \<open>@\<close>.\<close>

lemma replace_dataset:
  assumes "CHR ''@'' \<notin> set s"
  shows "replace (query_head @ ''@dataset_name'' @ query_mid @ s @ query_tail)
           ''@dataset_name'' d =
         query_head @ d @ query_mid @ s @ query_tail"
proof -
  define old where "old = ''@dataset_name''"
  define rest where "rest = query_mid @ s @ query_tail"
  have ne: "old \<noteq> []" and h: "hd old = CHR ''@''"
    by (simp_all add: old_def)
  have a: "hd old \<notin> set query_head"
    by (simp only: h no_at_head not_False_eq_True)
  have b: "hd old \<notin> set rest"
    using no_at_mid no_at_tail assms by (simp add: h rest_def)
  have "replace_scan old d (query_head @ old @ rest)
      = query_head @ replace_scan old d (old @ rest)"
    by (rule replace_scan_skip [OF ne a])
  also have "replace_scan old d (old @ rest) = d @ replace_scan old d rest"
    by (rule replace_scan_hit [OF ne])
  also have "replace_scan old d rest = rest"
    by (rule replace_scan_clean [OF ne b])
  finally have "replace_scan old d (query_head @ old @ rest) = query_head @ d @ rest" .
  moreover have "replace (query_head @ old @ rest) old d
      = replace_scan old d (query_head @ old @ rest)"
    using ne by (simp add: replace_def)
  ultimately show ?thesis
    by (simp add: rest_def old_def)
qed

lemma substitute_tokens_eq:
  assumes "CHR ''@'' \<notin> set s"
  shows "substitute_tokens s d = query_head @ d @ query_mid @ s @ query_tail"
  unfolding substitute_tokens_def replace_age
  by (rule replace_dataset [OF assms])

lemma templated_query_eq:
  "templated_query a d = query_head @ d @ query_mid @ str a @ query_tail"
  unfolding templated_query_def
  by (rule substitute_tokens_eq) (rule str_no_at)

section \<open>Claims about the templating step\<close>

text \<open>
  C1. For every integer age threshold \<open>a\<close> and every dataset name \<open>d\<close> (any string,
  also one that itself contains \<open>@age\<close>), the text produced by replacing \<open>@age\<close> with
  the decimal rendering of \<open>a\<close> and then \<open>@dataset_name\<close> with \<open>d\<close> in
  \<open>SOURCE_QUERY\<close> contains the substring \<open>age <= a\<close> and the table reference
  \<open>d.census\<close>.
\<close>

theorem generated_query_contains_age_and_table:
  "contains (templated_query a d) (''age <= '' @ str a) \<and>
   contains (templated_query a d) (d @ ''.census'')"
proof -
  have "templated_query a d
      = (query_head @ d @ ''.census\<newline>    WHERE\<newline>        '') @ (''age <= '' @ str a) @ query_tail"
    by (simp add: templated_query_eq query_mid_def)
  then have 1: "contains (templated_query a d) (''age <= '' @ str a)"
    by (simp only: contains_append)
  have "templated_query a d
      = query_head @ (d @ ''.census'') @ (''\<newline>    WHERE\<newline>        age <= '' @ str a @ query_tail)"
    by (simp add: templated_query_eq query_mid_def)
  then have 2: "contains (templated_query a d) (d @ ''.census'')"
    by (simp only: contains_append)
  from 1 2 show ?thesis ..
qed

text \<open>
  C3. For \<open>age = 100\<close> and \<open>dataset_name = 'sample_dataset'\<close> the templating
  expression of the notebook yields the template text with \<open>@age\<close> replaced by \<open>100\<close>
  and \<open>@dataset_name\<close> replaced by \<open>sample_dataset\<close>: the three pieces of the template
  around the two tokens are unchanged, and the whole text is the one written out below.
\<close>

theorem sample_query_text:
  "SOURCE_QUERY = query_head @ ''@dataset_name'' @ query_mid @ ''@age'' @ query_tail \<and>
   substitute_tokens ''100'' ''sample_dataset''
     = query_head @ ''sample_dataset'' @ query_mid @ ''100'' @ query_tail \<and>
   templated_query 100 ''sample_dataset'' = substitute_tokens ''100'' ''sample_dataset'' \<and>
   substitute_tokens ''100'' ''sample_dataset'' = ''\<newline>    SELECT \<newline>        age,\<newline>        workclass,\<newline>        fnlwgt,\<newline>        education,\<newline>        education_num,\<newline>        marital_status,\<newline>        occupation,\<newline>        relationship,\<newline>        race,\<newline>        gender,\<newline>        capital_gain,\<newline>        capital_loss,\<newline>        hours_per_week,\<newline>        native_country,\<newline>        CASE WHEN income_bracket = ' <=50K' THEN 0 ELSE 1 END AS income_bracket\<newline>    FROM \<newline>        sample_dataset.census\<newline>    WHERE\<newline>        age <= 100\<newline>''"
proof -
  have r: "substitute_tokens ''100'' ''sample_dataset''
      = query_head @ ''sample_dataset'' @ query_mid @ ''100'' @ query_tail"
    by (rule substitute_tokens_eq) simp
  have s: "str 100 = ''100''"
    by (simp add: str_def str_nat.simps digit_char_def)
  have g: "templated_query 100 ''sample_dataset''
      = substitute_tokens ''100'' ''sample_dataset''"
    by (simp only: templated_query_def s)
  have t: "query_head @ ''sample_dataset'' @ query_mid @ ''100'' @ query_tail = ''\<newline>    SELECT \<newline>        age,\<newline>        workclass,\<newline>        fnlwgt,\<newline>        education,\<newline>        education_num,\<newline>        marital_status,\<newline>        occupation,\<newline>        relationship,\<newline>        race,\<newline>        gender,\<newline>        capital_gain,\<newline>        capital_loss,\<newline>        hours_per_week,\<newline>        native_country,\<newline>        CASE WHEN income_bracket = ' <=50K' THEN 0 ELSE 1 END AS income_bracket\<newline>    FROM \<newline>        sample_dataset.census\<newline>    WHERE\<newline>        age <= 100\<newline>''"
    by (simp add: query_head_def query_mid_def query_tail_def)
  show ?thesis
    using template_split r g t by (simp only: simp_thms)
qed

section \<open>Facts about the query\<close>

lemma str0: "str 0 = ''0''"
  by (simp add: str_def str_nat.simps digit_char_def)

lemma str1: "str 1 = ''1''"
  by (simp add: str_def str_nat.simps digit_char_def)

lemma head_is_select_clause: "query_head = select_clause select_list"
  by (simp add: query_head_def select_clause_def select_list_def sql_quote_def str0 str1)

lemma output_names_eq: "output_names = [''age'', ''workclass'', ''fnlwgt'', ''education'',
      ''education_num'', ''marital_status'', ''occupation'',
      ''relationship'', ''race'', ''gender'', ''capital_gain'',
      ''capital_loss'', ''hours_per_week'', ''native_country'', ''income_bracket'']"
  by (simp add: output_names_def select_list_def)

lemma label_value:
  "column_value (select_row r) ''income_bracket''
     = Some (if r ''income_bracket'' = StrV '' <=50K'' then IntV 0 else IntV 1)"
  by (simp add: column_value_def output_names_eq) (simp add: select_row_def select_list_def)

lemma length_select_row: "length (select_row r) = 15"
  by (simp add: select_row_def select_list_def)

section \<open>Claims about the query\<close>


text \<open>A run of the query on the small census table.\<close>

lemma example_rows:
  "run_query 100 example_table =
    [[IntV 54, StrV '' ?'', IntV 0, StrV '' ?'', IntV 0, StrV '' ?'', StrV '' ?'', StrV '' ?'',
      StrV '' ?'', StrV '' ?'', IntV 0, IntV 0, IntV 0, StrV '' ?'', IntV 0],
     [IntV 32, StrV '' ?'', IntV 0, StrV '' ?'', IntV 0, StrV '' ?'', StrV '' ?'', StrV '' ?'',
      StrV '' ?'', StrV '' ?'', IntV 0, IntV 0, IntV 0, StrV '' ?'', IntV 1]]"
  by (simp add: run_query_def example_table_def where_clause_def person_def select_row_def
      select_list_def)

text \<open>
  C2. For every integer age threshold \<open>a\<close> and every dataset name \<open>d\<close>, the generated
  SQL is the \<^verbatim>\<open>SELECT\<close> clause of the fixed fifteen items, followed by the table
  reference and the age condition; the items produce the fifteen output columns \<open>age\<close>,
  \<open>workclass\<close>, ..., \<open>native_country\<close>, \<open>income_bracket\<close>; and in every row the query
  returns, the \<open>income_bracket\<close> column (the \<^verbatim>\<open>CASE\<close> expression) is 0 or 1.
\<close>

theorem generated_query_select_list:
  "templated_query a d
     = select_clause select_list @ d @ ''.census\<newline>    WHERE\<newline>        age <= '' @ str a @ ''\<newline>'' \<and>
   map item_name select_list = [''age'', ''workclass'', ''fnlwgt'', ''education'',
      ''education_num'', ''marital_status'', ''occupation'',
      ''relationship'', ''race'', ''gender'', ''capital_gain'',
      ''capital_loss'', ''hours_per_week'', ''native_country'', ''income_bracket''] \<and>
   (\<forall>r \<in> set (run_query a table).
      length r = 15 \<and>
      (column_value r ''income_bracket'' = Some (IntV 0) \<or>
       column_value r ''income_bracket'' = Some (IntV 1)))"
proof -
  have 1: "templated_query a d
     = select_clause select_list @ d @ ''.census\<newline>    WHERE\<newline>        age <= '' @ str a @ ''\<newline>''"
    by (simp add: templated_query_eq head_is_select_clause [symmetric] query_mid_def query_tail_def)
  have 2: "map item_name select_list = [''age'', ''workclass'', ''fnlwgt'', ''education'',
      ''education_num'', ''marital_status'', ''occupation'',
      ''relationship'', ''race'', ''gender'', ''capital_gain'',
      ''capital_loss'', ''hours_per_week'', ''native_country'', ''income_bracket'']"
    using output_names_eq by (simp only: output_names_def)
  have 3: "\<forall>r \<in> set (run_query a table).
      length r = 15 \<and>
      (column_value r ''income_bracket'' = Some (IntV 0) \<or>
       column_value r ''income_bracket'' = Some (IntV 1))"
    by (auto simp: run_query_def length_select_row label_value)
  from 1 2 3 show ?thesis by blast
qed

theorem generated_query_select_list_witness:
  "map (\<lambda>r. column_value r ''income_bracket'') (run_query 100 example_table)
     = [Some (IntV 0), Some (IntV 1)] \<and>
   map length (run_query 100 example_table) = [15, 15]"
  using generated_query_select_list [of 100 "''sample_dataset''" example_table]
  by (simp add: example_rows column_value_def output_names_eq)

text \<open>
  C8. The last select item is \<^verbatim>\<open>CASE WHEN income_bracket = ' <=50K' THEN 0 ELSE 1 END\<close>
  with a leading space in the literal. A row's label is 0 exactly when its
  \<open>income_bracket\<close> is the string \<open>' <=50K'\<close>; for every other value it is 1, in
  particular for the unpadded \<open>'<=50K'\<close> and for \<^verbatim>\<open>NULL\<close>.
\<close>

theorem label_recode_values:
  "item_text (last select_list)
     = ''CASE WHEN income_bracket = ' <=50K' THEN 0 ELSE 1 END AS income_bracket'' \<and>
   column_value (select_row r) ''income_bracket''
     = Some (if r ''income_bracket'' = StrV '' <=50K'' then IntV 0 else IntV 1) \<and>
   (column_value (select_row r) ''income_bracket'' = Some (IntV 0))
     = (r ''income_bracket'' = StrV '' <=50K'') \<and>
   (column_value (select_row r) ''income_bracket'' = Some (IntV 1))
     = (r ''income_bracket'' \<noteq> StrV '' <=50K'') \<and>
   column_value (select_row (r(''income_bracket'' := StrV ''<=50K''))) ''income_bracket''
     = Some (IntV 1) \<and>
   column_value (select_row (r(''income_bracket'' := Null))) ''income_bracket'' = Some (IntV 1)"
  by (simp add: label_value) (simp add: select_list_def sql_quote_def str0 str1)

section \<open>Facts and claims about the training file\<close>























section \<open>Facts and claims about the workspace setup\<close>

lemma DATA_DIR_eq: "DATA_DIR = ''workspace/data''"
  by (simp add: DATA_DIR_def path_join_def WORKSPACE_def startswith_def)

lemma simple_WORKSPACE: "simple_path WORKSPACE"
  by (simp add: simple_path_def WORKSPACE_def)

lemma simple_DATA_DIR: "simple_path DATA_DIR"
  by (simp add: simple_path_def DATA_DIR_eq)

lemma ancestors_WORKSPACE: "ancestors WORKSPACE = [[]]"
  by (simp add: ancestors_def WORKSPACE_def)

lemma ancestors_DATA_DIR: "ancestors DATA_DIR = [[], WORKSPACE]"
  by (simp add: ancestors_def WORKSPACE_def DATA_DIR_eq)

lemma inside_DATA: "inside WORKSPACE DATA_DIR"
  by (simp add: inside_def DATA_DIR_eq WORKSPACE_def startswith_def)

lemma not_inside_self: "\<not> inside p p"
proof
  assume "inside p p"
  then have "take (length (p @ ''/'')) p = p @ ''/''"
    by (simp add: inside_def startswith_def)
  then have "length (take (length (p @ ''/'')) p) = length (p @ ''/'')"
    by simp
  then show False by simp
qed

lemma DATA_ne: "DATA_DIR \<noteq> WORKSPACE"
  by (simp add: DATA_DIR_eq WORKSPACE_def)

lemma WORKSPACE_ne: "WORKSPACE \<noteq> []"
  by (simp add: WORKSPACE_def)

lemma DATA_ne_Nil: "DATA_DIR \<noteq> []"
  by (simp add: DATA_DIR_eq)

lemma not_inside_Nil: "\<not> inside WORKSPACE []"
  by (simp add: inside_def startswith_def WORKSPACE_def)

text \<open>Lookups in the store after a deletion or a creation.\<close>

lemma map_of_filter_keys:
  "map_of (filter (\<lambda>(q, n). P q) f) q = (if P q then map_of f q else None)"
  by (induction f) auto

lemma entry_unlink: "entry (unlink p f) q = (if q = p then None else entry f q)"
  using map_of_filter_keys [of "\<lambda>q. q \<noteq> p" f q] by (simp add: entry_def unlink_def)

lemma entry_delete_below: "entry (delete_below p f) q = (if inside p q then None else entry f q)"
  using map_of_filter_keys [of "\<lambda>q. \<not> inside p q" f q] by (simp add: entry_def delete_below_def)

lemma entry_Cons: "entry ((p, n) # f) q = (if q = p then Some n else entry f q)"
  by (simp add: entry_def)

lemma plain_below_unlink: "plain_below f p \<Longrightarrow> plain_below (unlink q f) p"
  by (simp add: plain_below_def unlink_def list_all_iff)

lemma plain_below_delete_below: "plain_below f p \<Longrightarrow> plain_below (delete_below q f) p"
  by (simp add: plain_below_def delete_below_def list_all_iff)

lemma plain_below_Cons:
  "plain_below f p \<Longrightarrow> plain_below ((q, Directory Full) # f) p"
  by (simp add: plain_below_def)

lemma follow_no_link:
  "entry f p \<noteq> None \<Longrightarrow> (\<And>t. entry f p \<noteq> Some (Symlink t)) \<Longrightarrow>
     follow k f p = Found p (the (entry f p))"
  by (cases k; cases "entry f p"; cases "the (entry f p)") auto

lemma stat_file: "entry f p = Some File \<Longrightarrow> stat f p = Found p File"
  using follow_no_link [of f p 40] by (simp add: stat_def)

lemma stat_directory: "entry f p = Some (Directory a) \<Longrightarrow> stat f p = Found p (Directory a)"
  using follow_no_link [of f p 40] by (simp add: stat_def)

lemma stat_absent: "entry f p = None \<Longrightarrow> stat f p = Absent"
  by (simp add: stat_def eval_nat_numeral)

text \<open>The calls of the cell on a store whose working directory is a full directory.\<close>

lemma exists_absent:
  "entry f [] = Some (Directory Full) \<Longrightarrow> entry f WORKSPACE = None \<Longrightarrow>
     gfile_exists f WORKSPACE = Returns False"
  by (simp add: gfile_exists_def simple_WORKSPACE ancestors_WORKSPACE stat_absent)

lemma exists_file:
  "entry f [] = Some (Directory Full) \<Longrightarrow> entry f WORKSPACE = Some File \<Longrightarrow>
     gfile_exists f WORKSPACE = Returns True"
  by (simp add: gfile_exists_def simple_WORKSPACE ancestors_WORKSPACE stat_file)

lemma exists_directory:
  "entry f [] = Some (Directory Full) \<Longrightarrow> entry f WORKSPACE = Some (Directory a) \<Longrightarrow>
     gfile_exists f WORKSPACE = Returns True"
  by (simp add: gfile_exists_def simple_WORKSPACE ancestors_WORKSPACE stat_directory)

lemma mkdir_WORKSPACE:
  "entry f [] = Some (Directory Full) \<Longrightarrow>
     gfile_mkdir f WORKSPACE
       = Returns (if entry f WORKSPACE \<noteq> None then f else (WORKSPACE, Directory Full) # f)"
  by (simp add: gfile_mkdir_def simple_WORKSPACE ancestors_WORKSPACE)

lemma mkdir_DATA_DIR:
  "entry f [] = Some (Directory Full) \<Longrightarrow> entry f WORKSPACE = Some (Directory Full) \<Longrightarrow>
     gfile_mkdir f DATA_DIR
       = Returns (if entry f DATA_DIR \<noteq> None then f else (DATA_DIR, Directory Full) # f)"
  by (simp add: gfile_mkdir_def simple_DATA_DIR ancestors_DATA_DIR)

lemma rmtree_absent:
  "entry f [] = Some (Directory Full) \<Longrightarrow> entry f WORKSPACE = None \<Longrightarrow>
     gfile_rmtree f WORKSPACE = Raises NotFoundError f"
  by (simp add: gfile_rmtree_def exists_absent)

lemma rmtree_file:
  "entry f [] = Some (Directory Full) \<Longrightarrow> entry f WORKSPACE = Some File \<Longrightarrow>
     gfile_rmtree f WORKSPACE = Returns (unlink WORKSPACE f)"
  by (simp add: gfile_rmtree_def exists_file stat_file)

lemma rmtree_directory:
  "entry f [] = Some (Directory Full) \<Longrightarrow> entry f WORKSPACE = Some (Directory Full) \<Longrightarrow>
     plain_below f WORKSPACE \<Longrightarrow>
     gfile_rmtree f WORKSPACE = Returns (unlink WORKSPACE (delete_below WORKSPACE f))"
  by (simp add: gfile_rmtree_def exists_directory stat_directory)


text \<open>The steps of the cell.\<close>

lemma create_WORKSPACE:
  assumes "entry (fs st) [] = Some (Directory Full)" and "entry (fs st) WORKSPACE = None"
  shows "create_dir line WORKSPACE st
           = Returns \<lparr>fs = (WORKSPACE, Directory Full) # fs st, stdout = stdout st @ [line]\<rparr>"
  using assms by (simp add: create_dir_def on_fs_def print_def mkdir_WORKSPACE)

lemma create_DATA_DIR:
  assumes "entry (fs st) [] = Some (Directory Full)"
    and "entry (fs st) WORKSPACE = Some (Directory Full)"
  shows "create_dir line DATA_DIR st
           = Returns \<lparr>fs = (if entry (fs st) DATA_DIR \<noteq> None then fs st
                            else (DATA_DIR, Directory Full) # fs st),
                      stdout = stdout st @ [line]\<rparr>"
  using assms by (simp add: create_dir_def on_fs_def print_def mkdir_DATA_DIR)

lemma create_both:
  assumes "entry (fs st) [] = Some (Directory Full)" and "entry (fs st) WORKSPACE = None"
  shows "(case create_dir ''Creating new workspace...'' WORKSPACE st of
            Returns st2 \<Rightarrow> create_dir ''Creating data directory...'' DATA_DIR st2
          | Raises e st2 \<Rightarrow> Raises e st2
          | Unmodelled \<Rightarrow> Unmodelled)
         = Returns \<lparr>fs = created (fs st),
                    stdout = stdout st @ [''Creating new workspace...'',
                                          ''Creating data directory...'']\<rparr>"
proof -
  let ?st2 = "\<lparr>fs = (WORKSPACE, Directory Full) # fs st,
               stdout = stdout st @ [''Creating new workspace...'']\<rparr>"
  have 1: "create_dir ''Creating new workspace...'' WORKSPACE st = Returns ?st2"
    by (rule create_WORKSPACE [OF assms])
  have a: "entry (fs ?st2) [] = Some (Directory Full)"
    using assms(1) WORKSPACE_ne by (simp add: entry_Cons)
  have b: "entry (fs ?st2) WORKSPACE = Some (Directory Full)"
    by (simp add: entry_Cons)
  have c: "entry ((WORKSPACE, Directory Full) # fs st) DATA_DIR = entry (fs st) DATA_DIR"
    using DATA_ne by (simp add: entry_Cons)
  show ?thesis
    by (simp add: 1 create_DATA_DIR [OF a b] c created_def)
qed

lemma remove_previous_plain:
  assumes "plain_start (fs st)"
  shows "remove_previous st
           = Returns \<lparr>fs = removed (fs st),
                      stdout = stdout st @ (if entry (fs st) WORKSPACE \<noteq> None
                                            then [''Removing previous workspace...''] else [])\<rparr>"
proof -
  from assms have w: "entry (fs st) [] = Some (Directory Full)"
    and p: "plain_below (fs st) WORKSPACE"
    and k: "entry (fs st) WORKSPACE = None \<or> entry (fs st) WORKSPACE = Some File \<or>
            entry (fs st) WORKSPACE = Some (Directory Full)"
    by (simp_all add: plain_start_def)
  from k show ?thesis
  proof (elim disjE)
    assume n: "entry (fs st) WORKSPACE = None"
    then show ?thesis
      by (simp add: remove_previous_def exists_absent [OF w n] removed_def)
  next
    assume n: "entry (fs st) WORKSPACE = Some File"
    then show ?thesis
      using w by (simp add: remove_previous_def exists_file on_fs_def print_def
          rmtree_file removed_def)
  next
    assume n: "entry (fs st) WORKSPACE = Some (Directory Full)"
    then show ?thesis
      using w p by (simp add: remove_previous_def exists_directory on_fs_def print_def
          rmtree_directory removed_def)
  qed
qed

lemma removed_plain:
  assumes "plain_start f"
  shows "entry (removed f) [] = Some (Directory Full)"
    and "entry (removed f) WORKSPACE = None"
    and "plain_below (removed f) WORKSPACE"
    and "q \<noteq> WORKSPACE \<Longrightarrow> \<not> inside WORKSPACE q \<Longrightarrow> entry (removed f) q = entry f q"
    and "entry f WORKSPACE = Some (Directory Full) \<Longrightarrow> inside WORKSPACE q \<Longrightarrow>
           entry (removed f) q = None"
  using assms WORKSPACE_ne not_inside_Nil
  by (auto simp: plain_start_def removed_def entry_unlink entry_delete_below
        plain_below_unlink plain_below_delete_below)

lemma created_plain:
  assumes "entry f [] = Some (Directory Full)" and "entry f WORKSPACE = None"
    and "plain_below f WORKSPACE"
  shows "entry (created f) [] = Some (Directory Full)"
    and "entry (created f) WORKSPACE = Some (Directory Full)"
    and "plain_below (created f) WORKSPACE"
    and "q \<noteq> WORKSPACE \<Longrightarrow> \<not> inside WORKSPACE q \<Longrightarrow> entry (created f) q = entry f q"
    and "entry f DATA_DIR = None \<Longrightarrow> entry (created f) DATA_DIR = Some (Directory Full)"
    and "q \<noteq> DATA_DIR \<Longrightarrow> inside WORKSPACE q \<Longrightarrow> entry (created f) q = entry f q"
  using assms WORKSPACE_ne DATA_ne DATA_ne_Nil inside_DATA not_inside_self [of WORKSPACE]
  by (auto simp: created_def entry_Cons plain_below_Cons)

lemma setup_plain:
  assumes "plain_start (fs st)"
  shows "workspace_setup st
           = Returns \<lparr>fs = created (removed (fs st)),
                      stdout = stdout st
                        @ (if entry (fs st) WORKSPACE \<noteq> None
                           then [''Removing previous workspace...''] else [])
                        @ [''Creating new workspace...'', ''Creating data directory...'']\<rparr>"
proof -
  let ?st1 = "\<lparr>fs = removed (fs st),
               stdout = stdout st @ (if entry (fs st) WORKSPACE \<noteq> None
                                     then [''Removing previous workspace...''] else [])\<rparr>"
  have a: "entry (fs ?st1) [] = Some (Directory Full)"
    and b: "entry (fs ?st1) WORKSPACE = None"
    using removed_plain(1,2) [OF assms] by simp_all
  show ?thesis
    unfolding workspace_setup_def remove_previous_plain [OF assms]
    using create_both [OF a b] by simp
qed

lemma setup_result_plain:
  assumes "plain_start f"
  shows "plain_start (created (removed f))"
    and "entry (created (removed f)) WORKSPACE = Some (Directory Full)"
    and "q \<noteq> WORKSPACE \<Longrightarrow> \<not> inside WORKSPACE q \<Longrightarrow> entry (created (removed f)) q = entry f q"
proof -
  note r = removed_plain [OF assms]
  note c = created_plain [OF r(1) r(2) r(3)]
  show "plain_start (created (removed f))"
    using c(1) c(2) c(3) by (simp add: plain_start_def)
  show "entry (created (removed f)) WORKSPACE = Some (Directory Full)"
    by (rule c(2))
  show "q \<noteq> WORKSPACE \<Longrightarrow> \<not> inside WORKSPACE q \<Longrightarrow> entry (created (removed f)) q = entry f q"
    using c(4) [of q] r(4) [of q] by simp
qed

lemma setup_result_clean:
  assumes "plain_start f" and "entry f WORKSPACE = Some (Directory Full)"
  shows "entry (created (removed f)) DATA_DIR = Some (Directory Full)"
    and "inside WORKSPACE q \<Longrightarrow> q \<noteq> DATA_DIR \<Longrightarrow> entry (created (removed f)) q = None"
proof -
  note r = removed_plain [OF assms(1)]
  note c = created_plain [OF r(1) r(2) r(3)]
  have n: "inside WORKSPACE q \<Longrightarrow> entry (removed f) q = None" for q
    by (rule r(5) [OF assms(2)])
  show "entry (created (removed f)) DATA_DIR = Some (Directory Full)"
    using c(5) n [OF inside_DATA] by simp
  show "inside WORKSPACE q \<Longrightarrow> q \<noteq> DATA_DIR \<Longrightarrow> entry (created (removed f)) q = None"
    using c(6) [of q] n [of q] by simp
qed

text \<open>The cell on the state with the link that points nowhere.\<close>

lemma dangling_entries:
  "entry (fs dangling_link) [] = Some (Directory Full)"
  "entry (fs dangling_link) WORKSPACE = Some (Symlink ''gone'')"
  "entry (fs dangling_link) ''gone'' = None"
  "entry (fs dangling_link) DATA_DIR = None"
  by (simp_all add: dangling_link_def entry_def WORKSPACE_def DATA_DIR_eq)

lemma dangling_stat: "stat (fs dangling_link) WORKSPACE = Absent"
  by (simp add: stat_def eval_nat_numeral dangling_entries)

lemma dangling_calls:
  "gfile_exists (fs dangling_link) WORKSPACE = Returns False"
  "gfile_mkdir (fs dangling_link) WORKSPACE = Returns (fs dangling_link)"
  "gfile_mkdir (fs dangling_link) DATA_DIR = Raises NotFoundError (fs dangling_link)"
  by (simp_all add: gfile_exists_def gfile_mkdir_def simple_WORKSPACE simple_DATA_DIR
      ancestors_WORKSPACE ancestors_DATA_DIR dangling_entries dangling_stat)

lemma dangling_setup:
  "fs st = fs dangling_link \<Longrightarrow>
     workspace_setup st
       = Raises NotFoundError
           (st\<lparr>stdout := stdout st @ [''Creating new workspace...'',
                                        ''Creating data directory...'']\<rparr>)"
  by (simp add: workspace_setup_def remove_previous_def create_dir_def on_fs_def print_def
      dangling_calls)

text \<open>
  C5, as the claim states it, fails: with a symbolic link at \<open>workspace\<close> whose target
  does not exist, the existence check is false, the first \<^verbatim>\<open>mkdir\<close> finds the link and
  does nothing, and the second \<^verbatim>\<open>mkdir\<close> raises \<^verbatim>\<open>NotFoundError\<close>. The file system is
  unchanged, so the second run raises in the same way, and there is no data directory.
\<close>

theorem workspace_setup_twice_fails_on_dangling_link:
  "workspace_setup dangling_link
     = Raises NotFoundError
         (dangling_link\<lparr>stdout := [''Creating new workspace...'',
                                    ''Creating data directory...'']\<rparr>) \<and>
   workspace_setup
       (dangling_link\<lparr>stdout := [''Creating new workspace...'',
                                  ''Creating data directory...'']\<rparr>)
     = Raises NotFoundError
         (dangling_link\<lparr>stdout := [''Creating new workspace...'',
                                    ''Creating data directory...'',
                                    ''Creating new workspace...'',
                                    ''Creating data directory...'']\<rparr>) \<and>
   entry (fs dangling_link) DATA_DIR = None"
proof -
  have 1: "workspace_setup dangling_link
     = Raises NotFoundError
         (dangling_link\<lparr>stdout := [''Creating new workspace...'',
                                    ''Creating data directory...'']\<rparr>)"
    using dangling_setup [of dangling_link] by (simp add: dangling_link_def)
  have 2: "workspace_setup
       (dangling_link\<lparr>stdout := [''Creating new workspace...'',
                                  ''Creating data directory...'']\<rparr>)
     = Raises NotFoundError
         (dangling_link\<lparr>stdout := [''Creating new workspace...'',
                                    ''Creating data directory...'',
                                    ''Creating new workspace...'',
                                    ''Creating data directory...'']\<rparr>)"
    using dangling_setup [of "dangling_link\<lparr>stdout := [''Creating new workspace...'',
                                  ''Creating data directory...'']\<rparr>"]
    by simp
  from 1 2 dangling_entries(4) show ?thesis by simp
qed

text \<open>
  C5, amended. From a starting state in which the working directory is a full directory
  and the workspace path and everything below it hold nothing but regular files and full
  directories (no symbolic link, no directory the process may not change), two runs of
  the workspace setup in succession both succeed, and after them the workspace root is a
  directory, its data subdirectory is a directory, no other path exists below the
  workspace root (so the data directory is empty), and every path outside the workspace
  is as it was at the start. The second run takes the removal branch: what the first run
  created is deleted and made anew.
\<close>

theorem workspace_setup_twice_clean:
  assumes "plain_start (fs st)"
  shows "\<exists>st1 st2. workspace_setup st = Returns st1 \<and> workspace_setup st1 = Returns st2 \<and>
      entry (fs st2) WORKSPACE = Some (Directory Full) \<and>
      entry (fs st2) DATA_DIR = Some (Directory Full) \<and>
      (\<forall>q. inside WORKSPACE q \<and> q \<noteq> DATA_DIR \<longrightarrow> entry (fs st2) q = None) \<and>
      (\<forall>q. q \<noteq> WORKSPACE \<and> \<not> inside WORKSPACE q \<longrightarrow> entry (fs st2) q = entry (fs st) q) \<and>
      stdout st2 = stdout st1 @ [''Removing previous workspace...'',
         ''Creating new workspace...'', ''Creating data directory...'']"
proof -
  let ?f1 = "created (removed (fs st))"
  let ?st1 = "\<lparr>fs = ?f1,
               stdout = stdout st
                 @ (if entry (fs st) WORKSPACE \<noteq> None
                    then [''Removing previous workspace...''] else [])
                 @ [''Creating new workspace...'', ''Creating data directory...'']\<rparr>"
  let ?st2 = "\<lparr>fs = created (removed ?f1),
               stdout = stdout ?st1 @ [''Removing previous workspace...'',
                 ''Creating new workspace...'', ''Creating data directory...'']\<rparr>"
  have p1: "plain_start ?f1" and w1: "entry ?f1 WORKSPACE = Some (Directory Full)"
    by (rule setup_result_plain [OF assms])+
  have o1: "q \<noteq> WORKSPACE \<Longrightarrow> \<not> inside WORKSPACE q \<Longrightarrow> entry ?f1 q = entry (fs st) q" for q
    by (rule setup_result_plain(3) [OF assms])
  have r1: "workspace_setup st = Returns ?st1"
    by (rule setup_plain [OF assms])
  have "plain_start (fs ?st1)"
    using p1 by simp
  from setup_plain [OF this] have r2: "workspace_setup ?st1 = Returns ?st2"
    using w1 by simp
  have a: "entry (fs ?st2) WORKSPACE = Some (Directory Full)"
    using setup_result_plain(2) [OF p1] by simp
  have b: "entry (fs ?st2) DATA_DIR = Some (Directory Full)"
    using setup_result_clean(1) [OF p1 w1] by simp
  have c: "\<forall>q. inside WORKSPACE q \<and> q \<noteq> DATA_DIR \<longrightarrow> entry (fs ?st2) q = None"
    using setup_result_clean(2) [OF p1 w1] by simp
  have d: "\<forall>q. q \<noteq> WORKSPACE \<and> \<not> inside WORKSPACE q \<longrightarrow> entry (fs ?st2) q = entry (fs st) q"
    using setup_result_plain(3) [OF p1] o1 by simp
  have e: "stdout ?st2 = stdout ?st1 @ [''Removing previous workspace...'',
         ''Creating new workspace...'', ''Creating data directory...'']"
    by simp
  from r1 r2 a b c d e show ?thesis by blast
qed

lemma previous_run_plain: "plain_start (fs previous_run)"
  by (simp add: plain_start_def previous_run_def entry_def plain_below_def inside_def
      startswith_def WORKSPACE_def)

lemma first_run_plain: "plain_start (fs first_run)"
  by (simp add: plain_start_def first_run_def entry_def plain_below_def inside_def
      startswith_def WORKSPACE_def)

theorem workspace_setup_twice_clean_witness:
  "plain_start (fs previous_run) \<and>
   (\<exists>st1 st2. workspace_setup previous_run = Returns st1 \<and> workspace_setup st1 = Returns st2 \<and>
      entry (fs st2) ''workspace'' = Some (Directory Full) \<and>
      entry (fs st2) ''workspace/data'' = Some (Directory Full) \<and>
      entry (fs st2) ''workspace/data/train.csv'' = None \<and>
      entry (fs st2) ''raw_schema'' = Some (Directory Full))"
proof -
  from workspace_setup_twice_clean [OF previous_run_plain] obtain st1 st2 where
    r: "workspace_setup previous_run = Returns st1" "workspace_setup st1 = Returns st2" and
    w: "entry (fs st2) WORKSPACE = Some (Directory Full)" and
    d: "entry (fs st2) DATA_DIR = Some (Directory Full)" and
    i: "\<forall>q. inside WORKSPACE q \<and> q \<noteq> DATA_DIR \<longrightarrow> entry (fs st2) q = None" and
    o: "\<forall>q. q \<noteq> WORKSPACE \<and> \<not> inside WORKSPACE q \<longrightarrow>
          entry (fs st2) q = entry (fs previous_run) q"
    by blast
  have "entry (fs st2) ''workspace/data/train.csv'' = None"
    using i [rule_format, of "''workspace/data/train.csv''"]
    by (simp add: inside_def WORKSPACE_def DATA_DIR_eq startswith_def)
  moreover have "entry (fs st2) ''raw_schema'' = Some (Directory Full)"
    using o [rule_format, of "''raw_schema''"]
    by (simp add: inside_def WORKSPACE_def startswith_def previous_run_def entry_def)
  ultimately show ?thesis
    using r w d previous_run_plain by (auto simp: WORKSPACE_def DATA_DIR_eq)
qed

text \<open>
  C10, as the claim states it, fails on the same state: the existence check says that
  the workspace root is absent, and the setup raises.
\<close>

theorem workspace_setup_raises_when_check_is_false:
  "gfile_exists (fs dangling_link) WORKSPACE = Returns False \<and>
   workspace_setup dangling_link
     = Raises NotFoundError
         (dangling_link\<lparr>stdout := [''Creating new workspace...'',
                                    ''Creating data directory...'']\<rparr>)"
  using dangling_setup [of dangling_link] dangling_calls(1)
  by (simp add: dangling_link_def)

text \<open>
  C10, amended. From a starting state in which the working directory is a full directory
  and the workspace path and everything below it hold nothing but regular files and full
  directories, the workspace setup succeeds, whether the workspace root exists or not.
  The removal branch is taken exactly when the workspace root exists: its line is printed
  in that case only. When the root does not exist, the removal step leaves the state
  untouched, and the removal call itself would raise \<^verbatim>\<open>NotFoundError\<close>.
\<close>

theorem workspace_setup_total:
  assumes "plain_start (fs st)"
  shows "\<exists>st'. workspace_setup st = Returns st' \<and>
      gfile_exists (fs st) WORKSPACE = Returns (entry (fs st) WORKSPACE \<noteq> None) \<and>
      stdout st' = stdout st
         @ (if entry (fs st) WORKSPACE \<noteq> None then [''Removing previous workspace...''] else [])
         @ [''Creating new workspace...'', ''Creating data directory...''] \<and>
      (entry (fs st) WORKSPACE = None \<longrightarrow>
         remove_previous st = Returns st \<and>
         gfile_rmtree (fs st) WORKSPACE = Raises NotFoundError (fs st))"
proof -
  from assms have w: "entry (fs st) [] = Some (Directory Full)"
    and k: "entry (fs st) WORKSPACE = None \<or> entry (fs st) WORKSPACE = Some File \<or>
            entry (fs st) WORKSPACE = Some (Directory Full)"
    by (simp_all add: plain_start_def)
  have x: "gfile_exists (fs st) WORKSPACE = Returns (entry (fs st) WORKSPACE \<noteq> None)"
    using k w by (auto simp: exists_absent exists_file exists_directory)
  have n: "entry (fs st) WORKSPACE = None \<longrightarrow>
         remove_previous st = Returns st \<and>
         gfile_rmtree (fs st) WORKSPACE = Raises NotFoundError (fs st)"
    using w by (simp add: remove_previous_def exists_absent rmtree_absent)
  from setup_plain [OF assms] x n show ?thesis by simp
qed

theorem workspace_setup_total_witness:
  "plain_start (fs first_run) \<and> entry (fs first_run) WORKSPACE = None \<and>
   (\<exists>st'. workspace_setup first_run = Returns st' \<and>
      stdout st' = [''Creating new workspace...'', ''Creating data directory...'']) \<and>
   gfile_rmtree (fs first_run) WORKSPACE = Raises NotFoundError (fs first_run) \<and>
   plain_start (fs previous_run) \<and> entry (fs previous_run) WORKSPACE \<noteq> None \<and>
   (\<exists>st'. workspace_setup previous_run = Returns st' \<and>
      stdout st' = [''Removing previous workspace...'', ''Creating new workspace...'',
                    ''Creating data directory...''])"
proof -
  have a: "entry (fs first_run) WORKSPACE = None"
    by (simp add: first_run_def entry_def WORKSPACE_def)
  have b: "entry (fs previous_run) WORKSPACE \<noteq> None"
    by (simp add: previous_run_def entry_def WORKSPACE_def)
  have s1: "stdout first_run = []" and s2: "stdout previous_run = []"
    by (simp_all add: first_run_def previous_run_def)
  show ?thesis
    using workspace_setup_total [OF first_run_plain] workspace_setup_total [OF previous_run_plain]
      a b first_run_plain previous_run_plain
    by (auto simp: s1 s2)
qed

section \<open>Facts and claims about the schema alteration\<close>

lemma index_of_Some: "index_of P xs = Some i \<Longrightarrow> i < length xs \<and> P (xs ! i)"
  by (induction xs arbitrary: i) (auto split: if_splits)

lemma index_of_modify:
  "(\<And>x. P (g x) = P x) \<Longrightarrow> index_of P (modify i g xs) = index_of P xs"
  unfolding modify_def
proof (induction xs arbitrary: i)
  case Nil
  show ?case by simp
next
  case (Cons x xs)
  show ?case
  proof (cases i)
    case 0
    with Cons.prems show ?thesis by simp
  next
    case (Suc j)
    with Cons show ?thesis by simp
  qed
qed

lemma nth_modify_same: "i < length xs \<Longrightarrow> modify i g xs ! i = g (xs ! i)"
  by (simp add: modify_def)

lemma nth_modify_proj:
  "(\<And>x. h (g x) = h x) \<Longrightarrow> h (modify i g xs ! j) = h (xs ! j)"
  by (cases "i < length xs") (simp_all add: modify_def nth_list_update list_update_beyond)

lemma length_modify [simp]: "length (modify i g xs) = length xs"
  by (simp add: modify_def)

lemma get_feature_valid: "get_feature s n = Inr i \<Longrightarrow> i < length (feature s) \<and> name (feature s ! i) = n"
  using index_of_Some [of "\<lambda>f. name f = n" "feature s" i]
  by (auto simp: get_feature_def split: option.splits)

text \<open>Lookups by name are not disturbed by the mutations.\<close>

lemma get_feature_set_min_domain_mass [simp]:
  "get_feature (set_min_domain_mass s i m) n = get_feature s n"
  by (simp add: get_feature_def set_min_domain_mass_def index_of_modify)

lemma get_feature_not_in_environment_append [simp]:
  "get_feature (not_in_environment_append s i e) n = get_feature s n"
  by (simp add: get_feature_def not_in_environment_append_def index_of_modify)

lemma get_feature_register_environments [simp]:
  "get_feature (register_environments s) n = get_feature s n"
  by (simp add: get_feature_def register_environments_def default_environment_append_def)

lemma get_feature_value_append:
  "value_append s r v = Inr s' \<Longrightarrow> get_feature s' n = get_feature s n"
  by (auto simp: value_append_def get_feature_def index_of_modify
           split: domain_ref.splits domain_info.splits)

lemma default_environment_register:
  "default_environment (register_environments s)
     = default_environment s @ [''TRAINING'', ''EVALUATION'', ''SERVING'']"
  by (simp add: register_environments_def default_environment_append_def)

lemma default_environment_alter:
  "alter_schema s = Inr s' \<Longrightarrow>
     default_environment s' = default_environment s @ [''TRAINING'', ''EVALUATION'', ''SERVING'']"
  by (auto simp: alter_schema_def Let_def default_environment_register
       not_in_environment_append_def set_min_domain_mass_def value_append_def
       split: sum.splits domain_ref.splits domain_info.splits)


lemma get_domain_valid:
  assumes "get_domain s n = Inr r"
  shows "\<exists>i. get_feature s n = Inr i \<and>
           (case r of
              SchemaDomain k \<Rightarrow> k < length (string_domain s) \<and>
                 (\<exists>d. domain_info (feature s ! i) = DomainName d \<and>
                      index_of (\<lambda>x. domain_name x = d) (string_domain s) = Some k)
            | FeatureDomain j \<Rightarrow> j = i \<and> (\<exists>x. domain_info (feature s ! i) = EmbeddedStringDomain x)
            | NonStringDomain j \<Rightarrow> j = i \<and> domain_info (feature s ! i) = OtherDomain)"
  using assms
  by (auto simp: get_domain_def split: sum.splits domain_info.splits option.splits
           dest: index_of_Some)

lemma domain_info_set_min_domain_mass [simp]:
  "domain_info (feature (set_min_domain_mass s i m) ! j) = domain_info (feature s ! j)"
  by (simp add: set_min_domain_mass_def nth_modify_proj)

lemma string_domain_set_min_domain_mass [simp]:
  "string_domain (set_min_domain_mass s i m) = string_domain s"
  by (simp add: set_min_domain_mass_def)

lemma domain_info_not_in_environment_append [simp]:
  "domain_info (feature (not_in_environment_append s i e) ! j) = domain_info (feature s ! j)"
  by (simp add: not_in_environment_append_def nth_modify_proj)

lemma string_domain_not_in_environment_append [simp]:
  "string_domain (not_in_environment_append s i e) = string_domain s"
  by (simp add: not_in_environment_append_def)

lemma feature_register_environments [simp]:
  "feature (register_environments s) = feature s"
  by (simp add: register_environments_def default_environment_append_def)

lemma string_domain_register_environments [simp]:
  "string_domain (register_environments s) = string_domain s"
  by (simp add: register_environments_def default_environment_append_def)

lemma get_domain_set_min_domain_mass [simp]:
  "get_domain (set_min_domain_mass s i m) n = get_domain s n"
  by (simp add: get_domain_def cong: sum.case_cong domain_info.case_cong)

lemma get_domain_not_in_environment_append [simp]:
  "get_domain (not_in_environment_append s i e) n = get_domain s n"
  by (simp add: get_domain_def cong: sum.case_cong domain_info.case_cong)

lemma get_domain_register_environments [simp]:
  "get_domain (register_environments s) n = get_domain s n"
  by (simp add: get_domain_def cong: sum.case_cong domain_info.case_cong)

lemma value_of_not_in_environment_append [simp]:
  "value_of (not_in_environment_append s i e) r = value_of s r"
  by (simp add: value_of_def cong: domain_ref.case_cong)

lemma value_of_register_environments [simp]:
  "value_of (register_environments s) r = value_of s r"
  by (simp add: value_of_def cong: domain_ref.case_cong)

text \<open>Appending through the reference that \<open>get_domain\<close> returned.\<close>

lemma value_append_through_ref:
  assumes g: "get_domain s n = Inr r" and a: "value_append s r v = Inr s'"
  shows "get_domain s' n = Inr r \<and> (\<exists>old. value_of s r = Inr old \<and> value_of s' r = Inr (old @ [v]))"
proof -
  from get_domain_valid [OF g] obtain i where i: "get_feature s n = Inr i"
    and r: "case r of
              SchemaDomain k \<Rightarrow> k < length (string_domain s) \<and>
                 (\<exists>d. domain_info (feature s ! i) = DomainName d \<and>
                      index_of (\<lambda>x. domain_name x = d) (string_domain s) = Some k)
            | FeatureDomain j \<Rightarrow> j = i \<and> (\<exists>x. domain_info (feature s ! i) = EmbeddedStringDomain x)
            | NonStringDomain j \<Rightarrow> j = i \<and> domain_info (feature s ! i) = OtherDomain"
    by blast
  have i': "get_feature s' n = Inr i"
    using get_feature_value_append [OF a] i by simp
  have il: "i < length (feature s)"
    using get_feature_valid [OF i] by simp
  show ?thesis
  proof (cases r)
    case (SchemaDomain k)
    with r obtain d where k: "k < length (string_domain s)"
      and d: "domain_info (feature s ! i) = DomainName d"
      and ix: "index_of (\<lambda>x. domain_name x = d) (string_domain s) = Some k"
      by auto
    from a SchemaDomain have s': "s' = s\<lparr>string_domain :=
        modify k (\<lambda>d. d\<lparr>domain_value := domain_value d @ [v]\<rparr>) (string_domain s)\<rparr>"
      by (simp add: value_append_def)
    have "get_domain s' n = Inr r"
      using i i' d ix SchemaDomain
      by (simp add: get_domain_def) (simp add: s' index_of_modify)
    moreover have "value_of s' r = Inr (domain_value (string_domain s ! k) @ [v])"
      using k by (simp add: value_of_def SchemaDomain s' nth_modify_same)
    moreover have "value_of s r = Inr (domain_value (string_domain s ! k))"
      by (simp add: value_of_def SchemaDomain)
    ultimately show ?thesis by simp
  next
    case (FeatureDomain j)
    with r obtain x where j: "j = i" and x: "domain_info (feature s ! i) = EmbeddedStringDomain x"
      by auto
    from a FeatureDomain j x have s': "s' = s\<lparr>feature :=
        modify i (\<lambda>f. f\<lparr>domain_info :=
           EmbeddedStringDomain (x\<lparr>domain_value := domain_value x @ [v]\<rparr>)\<rparr>) (feature s)\<rparr>"
      by (simp add: value_append_def)
    have di: "domain_info (feature s' ! i)
        = EmbeddedStringDomain (x\<lparr>domain_value := domain_value x @ [v]\<rparr>)"
      using il by (simp add: s' nth_modify_same)
    have "get_domain s' n = Inr r"
      using i' di FeatureDomain j by (simp add: get_domain_def)
    moreover have "value_of s' r = Inr (domain_value x @ [v])"
      using di by (simp add: value_of_def FeatureDomain j)
    moreover have "value_of s r = Inr (domain_value x)"
      using x by (simp add: value_of_def FeatureDomain j)
    ultimately show ?thesis by simp
  next
    case (NonStringDomain j)
    with a show ?thesis by (simp add: value_append_def)
  qed
qed

lemma mass_value_append:
  "value_append s r v = Inr s' \<Longrightarrow>
     min_domain_mass (distribution_constraints (feature s' ! i))
       = min_domain_mass (distribution_constraints (feature s ! i))"
  by (auto simp: value_append_def
        nth_modify_proj [where h = "\<lambda>f. min_domain_mass (distribution_constraints f)"]
        split: domain_ref.splits domain_info.splits)

lemma mass_not_in_environment_append:
  "min_domain_mass (distribution_constraints (feature (not_in_environment_append s t e) ! i))
       = min_domain_mass (distribution_constraints (feature s ! i))"
  by (simp add: not_in_environment_append_def
        nth_modify_proj [where h = "\<lambda>f. min_domain_mass (distribution_constraints f)"])

lemma mass_set:
  "i < length (feature s) \<Longrightarrow>
     min_domain_mass (distribution_constraints (feature (set_min_domain_mass s i m) ! i)) = m"
  by (simp add: set_min_domain_mass_def nth_modify_same)

lemma not_in_environment_appended:
  "i < length (feature s) \<Longrightarrow>
     not_in_environment (feature (not_in_environment_append s i e) ! i)
       = not_in_environment (feature s ! i) @ [e]"
  by (simp add: not_in_environment_append_def nth_modify_same)

text \<open>The steps of a successful run.\<close>

lemma alter_schema_steps:
  assumes "alter_schema s = Inr s'"
  obtains i r s2 t where
    "get_feature s ''occupation'' = Inr i"
    "get_domain (set_min_domain_mass s i 0.9) ''native_country'' = Inr r"
    "value_append (set_min_domain_mass s i 0.9) r ''Egypt'' = Inr s2"
    "get_feature (register_environments s2) TARGET_FEATURE_NAME = Inr t"
    "s' = not_in_environment_append (register_environments s2) t ''SERVING''"
  using assms
  by (auto simp: alter_schema_def Let_def split: sum.splits)

lemma alter_schema_result:
  "alter_schema s = Inr s' \<Longrightarrow>
     (\<exists>i. get_feature s' ''occupation'' = Inr i \<and>
          min_domain_mass (distribution_constraints (feature s' ! i)) = 0.9) \<and>
     (\<exists>r vs. get_domain s' ''native_country'' = Inr r \<and> value_of s' r = Inr vs \<and>
          ''Egypt'' \<in> set vs) \<and>
     {''TRAINING'', ''EVALUATION'', ''SERVING''} \<subseteq> set (default_environment s') \<and>
     (\<exists>t. get_feature s' ''income_bracket'' = Inr t \<and>
          ''SERVING'' \<in> set (not_in_environment (feature s' ! t)))"
proof -
  assume ok: "alter_schema s = Inr s'"
  from ok obtain i r s2 t where
    i: "get_feature s ''occupation'' = Inr i" and
    r: "get_domain (set_min_domain_mass s i 0.9) ''native_country'' = Inr r" and
    a: "value_append (set_min_domain_mass s i 0.9) r ''Egypt'' = Inr s2" and
    t: "get_feature (register_environments s2) TARGET_FEATURE_NAME = Inr t" and
    s': "s' = not_in_environment_append (register_environments s2) t ''SERVING''"
    by (rule alter_schema_steps)
  have il: "i < length (feature s)"
    using get_feature_valid [OF i] by simp
  have "get_feature s' ''occupation'' = Inr i"
    using i get_feature_value_append [OF a] by (simp add: s')
  moreover have "min_domain_mass (distribution_constraints (feature s' ! i)) = 0.9"
    using mass_set [OF il, of "0.9"] mass_value_append [OF a, of i]
    by (simp add: s' mass_not_in_environment_append)
  ultimately have 1: "\<exists>i. get_feature s' ''occupation'' = Inr i \<and>
          min_domain_mass (distribution_constraints (feature s' ! i)) = 0.9"
    by blast
  from value_append_through_ref [OF r a] obtain old where
    "get_domain s2 ''native_country'' = Inr r" "value_of s2 r = Inr (old @ [''Egypt''])"
    by blast
  then have "get_domain s' ''native_country'' = Inr r" "value_of s' r = Inr (old @ [''Egypt''])"
    by (simp_all add: s')
  then have 2: "\<exists>r vs. get_domain s' ''native_country'' = Inr r \<and> value_of s' r = Inr vs \<and>
          ''Egypt'' \<in> set vs"
    by fastforce
  have 3: "{''TRAINING'', ''EVALUATION'', ''SERVING''} \<subseteq> set (default_environment s')"
    using default_environment_alter [OF ok] by simp
  have tl: "t < length (feature (register_environments s2))"
    using get_feature_valid [OF t] by simp
  have "get_feature s' ''income_bracket'' = Inr t"
    using t by (simp add: s' TARGET_FEATURE_NAME_def)
  moreover have "''SERVING'' \<in> set (not_in_environment (feature s' ! t))"
    using not_in_environment_appended [OF tl, of "''SERVING''"] by (simp add: s')
  ultimately have 4: "\<exists>t. get_feature s' ''income_bracket'' = Inr t \<and>
          ''SERVING'' \<in> set (not_in_environment (feature s' ! t))"
    by blast
  from 1 2 3 4 show ?thesis by blast
qed


lemma alter_schema_succeeds:
  assumes i: "get_feature s ''occupation'' = Inr i"
    and r: "get_domain s ''native_country'' = Inr r"
    and v: "value_of s r = Inr vs"
    and t: "get_feature s ''income_bracket'' = Inr t"
  shows "\<exists>s'. alter_schema s = Inr s'"
proof -
  let ?s1 = "set_min_domain_mass s i 0.9"
  have r1: "get_domain ?s1 ''native_country'' = Inr r"
    using r by simp
  have "\<exists>s2. value_append ?s1 r ''Egypt'' = Inr s2"
    using v by (auto simp: value_append_def value_of_def split: domain_ref.splits domain_info.splits)
  then obtain s2 where a: "value_append ?s1 r ''Egypt'' = Inr s2" ..
  have "get_feature (register_environments s2) TARGET_FEATURE_NAME = Inr t"
    using t get_feature_value_append [OF a] by (simp add: TARGET_FEATURE_NAME_def)
  with i r1 a show ?thesis
    by (simp add: alter_schema_def)
qed

text \<open>
  C6. On a schema in which the features \<open>occupation\<close> and \<open>income_bracket\<close> exist and
  \<open>native_country\<close> has a string domain (as in an inferred schema of the census data),
  the alteration succeeds, and in the altered schema the \<open>min_domain_mass\<close> of
  \<open>occupation\<close> is 0.9, the values of the domain of \<open>native_country\<close> contain
  \<open>Egypt\<close>, \<open>default_environment\<close> contains \<open>TRAINING\<close>, \<open>EVALUATION\<close> and
  \<open>SERVING\<close>, and \<open>not_in_environment\<close> of \<open>income_bracket\<close> contains \<open>SERVING\<close>.
\<close>

theorem altered_schema_properties:
  assumes "get_feature s ''occupation'' = Inr i"
    and "get_domain s ''native_country'' = Inr r"
    and "value_of s r = Inr vs"
    and "get_feature s ''income_bracket'' = Inr t"
  shows "\<exists>s'. alter_schema s = Inr s' \<and>
     (\<exists>i. get_feature s' ''occupation'' = Inr i \<and>
          min_domain_mass (distribution_constraints (feature s' ! i)) = 0.9) \<and>
     (\<exists>r vs. get_domain s' ''native_country'' = Inr r \<and> value_of s' r = Inr vs \<and>
          ''Egypt'' \<in> set vs) \<and>
     {''TRAINING'', ''EVALUATION'', ''SERVING''} \<subseteq> set (default_environment s') \<and>
     (\<exists>t. get_feature s' ''income_bracket'' = Inr t \<and>
          ''SERVING'' \<in> set (not_in_environment (feature s' ! t)))"
proof -
  from alter_schema_succeeds [OF assms] obtain s' where "alter_schema s = Inr s'" ..
  with alter_schema_result [OF this] show ?thesis by blast
qed

lemma inferred_lookups:
  "get_feature inferred_example ''occupation'' = Inr 0"
  "get_domain inferred_example ''native_country'' = Inr (SchemaDomain 1)"
  "value_of inferred_example (SchemaDomain 1) = Inr ['' Mexico'', '' United-States'']"
  "get_feature inferred_example ''income_bracket'' = Inr 2"
  by (simp_all add: inferred_example_def get_feature_def get_domain_def value_of_def)

theorem altered_schema_properties_witness:
  "get_feature inferred_example ''occupation'' = Inr 0 \<and>
   get_domain inferred_example ''native_country'' = Inr (SchemaDomain 1) \<and>
   value_of inferred_example (SchemaDomain 1) = Inr ['' Mexico'', '' United-States''] \<and>
   get_feature inferred_example ''income_bracket'' = Inr 2 \<and>
   (\<exists>s'. alter_schema inferred_example = Inr s' \<and>
     (\<exists>i. get_feature s' ''occupation'' = Inr i \<and>
          min_domain_mass (distribution_constraints (feature s' ! i)) = 0.9) \<and>
     (\<exists>r vs. get_domain s' ''native_country'' = Inr r \<and> value_of s' r = Inr vs \<and>
          ''Egypt'' \<in> set vs) \<and>
     {''TRAINING'', ''EVALUATION'', ''SERVING''} \<subseteq> set (default_environment s') \<and>
     (\<exists>t. get_feature s' ''income_bracket'' = Inr t \<and>
          ''SERVING'' \<in> set (not_in_environment (feature s' ! t))))"
  using altered_schema_properties [OF inferred_lookups] inferred_lookups by blast

text \<open>
  C7. The environment registration appends without looking for duplicates: the list
  grows by \<open>TRAINING\<close>, \<open>EVALUATION\<close>, \<open>SERVING\<close> at its end. For a name \<open>n\<close> of
  these three that the list already contains, the number of its occurrences grows by
  one, so it occurs at least twice (exactly twice when it occurred once) and the list
  has a duplicate; the same holds for the whole alteration step when it succeeds.
\<close>

theorem environment_appends_duplicate:
  assumes "n \<in> set [''TRAINING'', ''EVALUATION'', ''SERVING'']"
    and "n \<in> set (default_environment s)"
  shows "default_environment (register_environments s)
           = default_environment s @ [''TRAINING'', ''EVALUATION'', ''SERVING''] \<and>
         count_list (default_environment (register_environments s)) n
           = count_list (default_environment s) n + 1 \<and>
         2 \<le> count_list (default_environment (register_environments s)) n \<and>
         (count_list (default_environment s) n = 1 \<longrightarrow>
            count_list (default_environment (register_environments s)) n = 2) \<and>
         \<not> distinct (default_environment (register_environments s)) \<and>
         (\<forall>s'. alter_schema s = Inr s' \<longrightarrow>
            count_list (default_environment s') n = count_list (default_environment s) n + 1)"
proof -
  have c: "count_list [''TRAINING'', ''EVALUATION'', ''SERVING''] n = 1"
    using assms(1) by auto
  have p: "0 < count_list (default_environment s) n"
    using assms(2) count_list_0_iff [of "default_environment s" n] by (cases "count_list (default_environment s) n") simp_all
  have 1: "count_list (default_environment (register_environments s)) n
           = count_list (default_environment s) n + 1"
    by (simp only: default_environment_register count_list_append c)
  have 2: "2 \<le> count_list (default_environment (register_environments s)) n"
    using 1 p by simp
  have 3: "\<not> distinct (default_environment (register_environments s))"
    using assms by (auto simp: default_environment_register)
  have 4: "\<forall>s'. alter_schema s = Inr s' \<longrightarrow>
            count_list (default_environment s') n = count_list (default_environment s) n + 1"
    using c by (auto dest!: default_environment_alter)
  have 5: "count_list (default_environment s) n = 1 \<longrightarrow>
            count_list (default_environment (register_environments s)) n = 2"
    using 1 by simp
  from default_environment_register 1 2 3 4 5 show ?thesis by blast
qed


theorem environment_appends_duplicate_witness:
  "''SERVING'' \<in> set (default_environment (register_environments inferred_example)) \<and>
   default_environment (register_environments (register_environments inferred_example))
     = [''TRAINING'', ''EVALUATION'', ''SERVING'', ''TRAINING'', ''EVALUATION'', ''SERVING''] \<and>
   count_list (default_environment (register_environments (register_environments inferred_example)))
      ''SERVING'' = 2"
proof -
  have e: "default_environment (register_environments inferred_example)
      = [''TRAINING'', ''EVALUATION'', ''SERVING'']"
    by (simp add: default_environment_register) (simp add: inferred_example_def)
  have m: "''SERVING'' \<in> set (default_environment (register_environments inferred_example))"
    by (simp add: e)
  show ?thesis
    using environment_appends_duplicate [of "''SERVING''" "register_environments inferred_example"] m
    by (simp add: e)
qed

end
